theory Spec2Isabelle
  imports Main
begin

section \<open>ClawDug.sol: the DUG token, the agent registry and the game contract\<close>

text \<open>
  A shallow embedding of \<^verbatim>\<open>src/ClawDug.sol\<close> (Solidity 0.8.24).

  \<^item> \<^verbatim>\<open>uint256\<close>, \<^verbatim>\<open>address\<close> and \<^verbatim>\<open>bytes32\<close> values are natural numbers;
    \<^verbatim>\<open>address(0)\<close> is \<open>0\<close>. Solidity 0.8 arithmetic is checked: an addition or a
    multiplication whose result does not fit 256 bits reverts with a panic, which the model
    returns as the error \<open>Panic\<close>. Arithmetic in an \<^verbatim>\<open>unchecked\<close> block of the
    token library wraps modulo \<open>2 ^ 256\<close>.
  \<^item> A call returns \<open>Inl e\<close> when it reverts and \<open>Inr s'\<close> with the new storage when it
    succeeds. A revert discards every write of the call (\<open>transact\<close>).
  \<^item> Each contract is a record of its storage; the game's record holds the token and the
    registry it calls (\<^verbatim>\<open>dugToken\<close>, \<^verbatim>\<open>registry\<close>), its own address (\<^verbatim>\<open>address(this)\<close>)
    and the log of events it has emitted.
  \<^item> The OpenZeppelin parents (ERC20, ERC20Burnable, Ownable, ECDSA) are imported by the
    source, not part of it. ERC20 and Ownable are written out after version 5 of that library;
    signature recovery is a parameter of the call environment.
\<close>

type_synonym address = nat
type_synonym uint256 = nat
type_synonym bytes32 = nat
type_synonym bytes = "nat list"

datatype error =
    ReplayedSession          \<comment> \<open>"Game: session already used"\<close>
  | ExpiredSignature         \<comment> \<open>"Game: signature expired"\<close>
  | InvalidSignature         \<comment> \<open>"Game: invalid signature"\<close>
  | EpochNotEnded            \<comment> \<open>"Game: epoch not ended"\<close>
  | AlreadySettled           \<comment> \<open>"Game: already settled"\<close>
  | SupplyExceeded           \<comment> \<open>"DUG: max supply exceeded"\<close>
  | NotGame                  \<comment> \<open>"DUG: caller is not game"\<close>
  | AlreadyRegistered        \<comment> \<open>"Registry: already registered"\<close>
  | AgentIdTaken             \<comment> \<open>"Registry: agentId taken"\<close>
  | Panic                    \<comment> \<open>checked arithmetic overflow\<close>
  | ECDSAInvalidSignature    \<comment> \<open>the recovery library rejects the signature bytes\<close>
  | OwnableUnauthorizedAccount
  | OwnableInvalidOwner
  | ERC20InsufficientBalance
  | ERC20InsufficientAllowance
  | ERC20InvalidSender
  | ERC20InvalidReceiver
  | ERC20InvalidApprover
  | ERC20InvalidSpender

definition MAX_UINT256 :: nat where
  "MAX_UINT256 = 2 ^ 256 - 1"

definition checked_add :: "nat \<Rightarrow> nat \<Rightarrow> error + nat" where
  "checked_add a b = (if a + b \<le> MAX_UINT256 then Inr (a + b) else Inl Panic)"

definition checked_mul :: "nat \<Rightarrow> nat \<Rightarrow> error + nat" where
  "checked_mul a b = (if a * b \<le> MAX_UINT256 then Inr (a * b) else Inl Panic)"

definition bind :: "error + 'a \<Rightarrow> ('a \<Rightarrow> error + 'b) \<Rightarrow> error + 'b" where
  "bind m f = (case m of Inl e \<Rightarrow> Inl e | Inr x \<Rightarrow> f x)"

text \<open>A transaction: a reverted call leaves the storage as it was and reports its error.\<close>

definition transact :: "('s \<Rightarrow> error + 's) \<Rightarrow> 's \<Rightarrow> 's \<times> error option" where
  "transact f s = (case f s of Inl e \<Rightarrow> (s, Some e) | Inr s' \<Rightarrow> (s', None))"

subsection \<open>The call environment\<close>

text \<open>
  \<open>recover\<close> stands for \<^verbatim>\<open>keccak256(abi.encodePacked(...)).toEthSignedMessageHash().recover(signature)\<close>:
  it takes the packed fields and the signature bytes; \<open>None\<close> is a revert inside the library.
\<close>

record env =
  msg_sender :: address
  block_timestamp :: uint256
  block_chainid :: uint256
  recover :: "nat list \<Rightarrow> bytes \<Rightarrow> address option"

subsection \<open>DugToken\<close>

record DugToken =
  totalSupply :: uint256
  balanceOf :: "address \<Rightarrow> uint256"
  allowance :: "address \<Rightarrow> address \<Rightarrow> uint256"
  gameContract :: address
  tokenOwner :: address

definition MAX_SUPPLY :: nat where
  "MAX_SUPPLY = 100000000 * 10 ^ 18"

text \<open>ERC20 \<^verbatim>\<open>_update\<close>: the supply grows checked, the other three writes are unchecked.\<close>

definition erc20_update :: "address \<Rightarrow> address \<Rightarrow> uint256 \<Rightarrow> DugToken \<Rightarrow> error + DugToken" where
  "erc20_update from to v t =
     bind (if from = 0
           then bind (checked_add (totalSupply t) v) (\<lambda>n. Inr (t\<lparr>totalSupply := n\<rparr>))
           else if balanceOf t from < v then Inl ERC20InsufficientBalance
           else Inr (t\<lparr>balanceOf := (balanceOf t)(from := balanceOf t from - v)\<rparr>))
       (\<lambda>t1. if to = 0
           then Inr (t1\<lparr>totalSupply := (totalSupply t1 + 2 ^ 256 - v) mod 2 ^ 256\<rparr>)
           else Inr (t1\<lparr>balanceOf := (balanceOf t1)(to := (balanceOf t1 to + v) mod 2 ^ 256)\<rparr>))"

definition erc20_mint :: "address \<Rightarrow> uint256 \<Rightarrow> DugToken \<Rightarrow> error + DugToken" where
  "erc20_mint account v t =
     (if account = 0 then Inl ERC20InvalidReceiver else erc20_update 0 account v t)"

definition erc20_burn :: "address \<Rightarrow> uint256 \<Rightarrow> DugToken \<Rightarrow> error + DugToken" where
  "erc20_burn account v t =
     (if account = 0 then Inl ERC20InvalidSender else erc20_update account 0 v t)"

definition erc20_transfer :: "address \<Rightarrow> address \<Rightarrow> uint256 \<Rightarrow> DugToken \<Rightarrow> error + DugToken" where
  "erc20_transfer from to v t =
     (if from = 0 then Inl ERC20InvalidSender
      else if to = 0 then Inl ERC20InvalidReceiver
      else erc20_update from to v t)"

definition erc20_spendAllowance :: "address \<Rightarrow> address \<Rightarrow> uint256 \<Rightarrow> DugToken \<Rightarrow> error + DugToken" where
  "erc20_spendAllowance owner spender v t =
     (let currentAllowance = allowance t owner spender in
      if currentAllowance < MAX_UINT256 then
        (if currentAllowance < v then Inl ERC20InsufficientAllowance
         else if owner = 0 then Inl ERC20InvalidApprover
         else if spender = 0 then Inl ERC20InvalidSpender
         else Inr (t\<lparr>allowance := (allowance t)(owner := (allowance t owner)(spender := currentAllowance - v))\<rparr>))
      else Inr t)"

definition approve :: "address \<Rightarrow> address \<Rightarrow> uint256 \<Rightarrow> DugToken \<Rightarrow> error + DugToken" where
  "approve caller spender v t =
     (if caller = 0 then Inl ERC20InvalidApprover
      else if spender = 0 then Inl ERC20InvalidSpender
      else Inr (t\<lparr>allowance := (allowance t)(caller := (allowance t caller)(spender := v))\<rparr>))"

definition transfer :: "address \<Rightarrow> address \<Rightarrow> uint256 \<Rightarrow> DugToken \<Rightarrow> error + DugToken" where
  "transfer caller to v t = erc20_transfer caller to v t"

definition transferFrom :: "address \<Rightarrow> address \<Rightarrow> address \<Rightarrow> uint256 \<Rightarrow> DugToken \<Rightarrow> error + DugToken" where
  "transferFrom caller from to v t =
     bind (erc20_spendAllowance from caller v t) (erc20_transfer from to v)"

definition burn :: "address \<Rightarrow> uint256 \<Rightarrow> DugToken \<Rightarrow> error + DugToken" where
  "burn caller v t = erc20_burn caller v t"

definition burnFrom :: "address \<Rightarrow> address \<Rightarrow> uint256 \<Rightarrow> DugToken \<Rightarrow> error + DugToken" where
  "burnFrom caller account v t =
     bind (erc20_spendAllowance account caller v t) (erc20_burn account v)"

definition setGameContract :: "address \<Rightarrow> address \<Rightarrow> DugToken \<Rightarrow> error + DugToken" where
  "setGameContract caller g t =
     (if caller \<noteq> tokenOwner t then Inl OwnableUnauthorizedAccount
      else Inr (t\<lparr>gameContract := g\<rparr>))"

definition mint :: "address \<Rightarrow> address \<Rightarrow> uint256 \<Rightarrow> DugToken \<Rightarrow> error + DugToken" where
  "mint caller to amount t =
     (if caller \<noteq> gameContract t then Inl NotGame
      else bind (checked_add (totalSupply t) amount) (\<lambda>n.
        if \<not> n \<le> MAX_SUPPLY then Inl SupplyExceeded
        else erc20_mint to amount t))"

definition token_transferOwnership :: "address \<Rightarrow> address \<Rightarrow> DugToken \<Rightarrow> error + DugToken" where
  "token_transferOwnership caller newOwner t =
     (if caller \<noteq> tokenOwner t then Inl OwnableUnauthorizedAccount
      else if newOwner = 0 then Inl OwnableInvalidOwner
      else Inr (t\<lparr>tokenOwner := newOwner\<rparr>))"

subsection \<open>AgentRegistry\<close>

record AgentProfile =
  agentId :: bytes32
  name :: string
  wallet :: address
  isAgent :: bool
  gamesPlayed :: uint256
  totalScore :: uint256
  bestScore :: uint256
  registeredAt :: uint256

record AgentRegistry =
  profiles :: "address \<Rightarrow> AgentProfile"
  agentIdToWallet :: "bytes32 \<Rightarrow> address"
  agentList :: "address list"
  registryOwner :: address

definition register :: "env \<Rightarrow> bytes32 \<Rightarrow> string \<Rightarrow> bool \<Rightarrow> AgentRegistry \<Rightarrow> error + AgentRegistry" where
  "register e aid nm ag r =
     (if registeredAt (profiles r (msg_sender e)) \<noteq> 0 then Inl AlreadyRegistered
      else if ag \<and> agentIdToWallet r aid \<noteq> 0 then Inl AgentIdTaken
      else
        (let r1 = (if ag then r\<lparr>agentIdToWallet := (agentIdToWallet r)(aid := msg_sender e)\<rparr> else r) in
         Inr (r1\<lparr>profiles := (profiles r1)(msg_sender e :=
                    \<lparr>agentId = aid, name = nm, wallet = msg_sender e, isAgent = ag,
                     gamesPlayed = 0, totalScore = 0, bestScore = 0,
                     registeredAt = block_timestamp e\<rparr>),
                 agentList := agentList r1 @ [msg_sender e]\<rparr>)))"

definition recordGame :: "address \<Rightarrow> address \<Rightarrow> uint256 \<Rightarrow> AgentRegistry \<Rightarrow> error + AgentRegistry" where
  "recordGame caller player sc r =
     (if caller \<noteq> registryOwner r then Inl OwnableUnauthorizedAccount
      else
        (let p = profiles r player in
         bind (checked_add (gamesPlayed p) 1) (\<lambda>g.
         bind (checked_add (totalScore p) sc) (\<lambda>ts.
           Inr (r\<lparr>profiles := (profiles r)(player :=
                  p\<lparr>gamesPlayed := g, totalScore := ts,
                    bestScore := (if bestScore p < sc then sc else bestScore p)\<rparr>)\<rparr>)))))"

definition getProfile :: "address \<Rightarrow> AgentRegistry \<Rightarrow> AgentProfile" where
  "getProfile w r = profiles r w"

definition registry_transferOwnership :: "address \<Rightarrow> address \<Rightarrow> AgentRegistry \<Rightarrow> error + AgentRegistry" where
  "registry_transferOwnership caller newOwner r =
     (if caller \<noteq> registryOwner r then Inl OwnableUnauthorizedAccount
      else if newOwner = 0 then Inl OwnableInvalidOwner
      else Inr (r\<lparr>registryOwner := newOwner\<rparr>))"

subsection \<open>ClawDugGame: storage\<close>

definition PRIZE_POOL_BPS :: nat where "PRIZE_POOL_BPS = 7000"
definition BURN_BPS :: nat where "BURN_BPS = 1000"
definition TREASURY_BPS :: nat where "TREASURY_BPS = 2000"
definition BPS_DENOM :: nat where "BPS_DENOM = 10000"

definition REWARD_PER_KILL :: nat where "REWARD_PER_KILL = 2 * 10 ^ 18"
definition REWARD_PER_ROUND :: nat where "REWARD_PER_ROUND = 10 * 10 ^ 18"
definition REWARD_MILESTONE :: nat where "REWARD_MILESTONE = 50 * 10 ^ 18"

definition LB_SIZE :: nat where "LB_SIZE = 20"

record ScoreEntry =
  player :: address
  score :: uint256
  round :: uint256
  kills :: uint256
  entryIsAgent :: bool
  timestamp :: uint256
  sessionId :: bytes32

record Epoch =
  epochId :: uint256
  startTime :: uint256
  endTime :: uint256
  prizePool :: uint256
  burnAmount :: uint256
  treasuryAmount :: uint256
  settled :: bool
  humanWinner :: address
  agentWinner :: address
  humanTopScore :: uint256
  agentTopScore :: uint256

datatype event =
    ScoreSubmitted address uint256 uint256 uint256 bool uint256 bytes32
  | LeaderboardUpdated bool nat address uint256
  | EpochSettled uint256 address uint256 address uint256
  | RewardMinted address uint256
  | EpochStarted uint256 uint256 uint256

text \<open>
  The two fixed arrays \<^verbatim>\<open>ScoreEntry[LB_SIZE]\<close> are lists of length \<open>LB_SIZE\<close>;
  \<open>gameAddress\<close> is \<^verbatim>\<open>address(this)\<close>.
\<close>

record ClawDugGame =
  dugToken :: DugToken
  registry :: AgentRegistry
  gameAddress :: address
  gameOwner :: address
  scoreSigner :: address
  humanEntryFee :: uint256
  agentEntryFee :: uint256
  humanLeaderboard :: "ScoreEntry list"
  agentLeaderboard :: "ScoreEntry list"
  humanLBCount :: uint256
  agentLBCount :: uint256
  epochs :: "uint256 \<Rightarrow> Epoch"
  currentEpoch :: uint256
  epochDuration :: uint256
  usedSessions :: "bytes32 \<Rightarrow> bool"
  treasury :: address
  treasuryBalance :: uint256
  events :: "event list"

definition emptyEntry :: ScoreEntry where
  "emptyEntry = \<lparr>player = 0, score = 0, round = 0, kills = 0, entryIsAgent = False,
                  timestamp = 0, sessionId = 0\<rparr>"

definition emptyEpoch :: Epoch where
  "emptyEpoch = \<lparr>epochId = 0, startTime = 0, endTime = 0, prizePool = 0, burnAmount = 0,
                  treasuryAmount = 0, settled = False, humanWinner = 0, agentWinner = 0,
                  humanTopScore = 0, agentTopScore = 0\<rparr>"

definition emptyProfile :: AgentProfile where
  "emptyProfile = \<lparr>agentId = 0, name = [], wallet = 0, isAgent = False, gamesPlayed = 0,
                    totalScore = 0, bestScore = 0, registeredAt = 0\<rparr>"

text \<open>The game calling the token: \<^verbatim>\<open>dugToken.mint(to, amount)\<close> and \<^verbatim>\<open>dugToken.burn(amount)\<close>.\<close>

definition game_mint :: "address \<Rightarrow> uint256 \<Rightarrow> ClawDugGame \<Rightarrow> error + ClawDugGame" where
  "game_mint to amount s =
     bind (mint (gameAddress s) to amount (dugToken s)) (\<lambda>t. Inr (s\<lparr>dugToken := t\<rparr>))"

definition game_burn :: "uint256 \<Rightarrow> ClawDugGame \<Rightarrow> error + ClawDugGame" where
  "game_burn amount s =
     bind (burn (gameAddress s) amount (dugToken s)) (\<lambda>t. Inr (s\<lparr>dugToken := t\<rparr>))"

subsection \<open>Epoch management\<close>

definition startNewEpoch :: "env \<Rightarrow> ClawDugGame \<Rightarrow> error + ClawDugGame" where
  "startNewEpoch e s =
     bind (checked_add (currentEpoch s) 1) (\<lambda>n.
     bind (checked_add (block_timestamp e) (epochDuration s)) (\<lambda>te.
       Inr (s\<lparr>currentEpoch := n,
              epochs := (epochs s)(n :=
                \<lparr>epochId = n, startTime = block_timestamp e, endTime = te, prizePool = 0,
                 burnAmount = 0, treasuryAmount = 0, settled = False, humanWinner = 0,
                 agentWinner = 0, humanTopScore = 0, agentTopScore = 0\<rparr>),
              events := events s @ [EpochStarted n (block_timestamp e) te]\<rparr>)))"

text \<open>
  The prize block of \<^verbatim>\<open>settleEpoch\<close> (the body of \<^verbatim>\<open>if (epoch.prizePool > 0)\<close>): the four
  conditionals in the order of the source, returning the storage with \<^verbatim>\<open>humanPrize\<close> and
  \<^verbatim>\<open>agentPrize\<close>.
\<close>

definition settle_prizes :: "Epoch \<Rightarrow> ClawDugGame \<Rightarrow> error + (ClawDugGame \<times> uint256 \<times> uint256)" where
  "settle_prizes epoch s =
     (if 0 < prizePool epoch then
        (let half = prizePool epoch div 2 in
         bind (if humanWinner epoch \<noteq> 0
               then bind (game_mint (humanWinner epoch) half s) (\<lambda>s1. Inr (s1, half))
               else Inr (s, 0)) (\<lambda>(s1, humanPrize).
         bind (if agentWinner epoch \<noteq> 0
               then bind (game_mint (agentWinner epoch) half s1) (\<lambda>s2. Inr (s2, half))
               else Inr (s1, 0)) (\<lambda>(s2, agentPrize).
         bind (if humanWinner epoch = 0 \<and> agentWinner epoch \<noteq> 0
               then bind (game_mint (agentWinner epoch) half s2) (\<lambda>s3. Inr (s3, prizePool epoch))
               else Inr (s2, agentPrize)) (\<lambda>(s3, agentPrize').
         bind (if agentWinner epoch = 0 \<and> humanWinner epoch \<noteq> 0
               then bind (game_mint (humanWinner epoch) half s3) (\<lambda>s4. Inr (s4, prizePool epoch))
               else Inr (s3, humanPrize)) (\<lambda>(s4, humanPrize').
           Inr (s4, humanPrize', agentPrize'))))))
      else Inr (s, 0, 0))"

definition settle_burn :: "Epoch \<Rightarrow> ClawDugGame \<Rightarrow> error + ClawDugGame" where
  "settle_burn epoch s =
     (if 0 < burnAmount epoch
      then bind (game_mint (gameAddress s) (burnAmount epoch) s) (game_burn (burnAmount epoch))
      else Inr s)"

definition settle_treasury :: "Epoch \<Rightarrow> ClawDugGame \<Rightarrow> error + ClawDugGame" where
  "settle_treasury epoch s =
     (if 0 < treasuryAmount epoch
      then bind (game_mint (treasury s) (treasuryAmount epoch) s) (\<lambda>s1.
           bind (checked_add (treasuryBalance s1) (treasuryAmount epoch)) (\<lambda>tb.
             Inr (s1\<lparr>treasuryBalance := tb\<rparr>)))
      else Inr s)"

definition settleEpoch :: "env \<Rightarrow> ClawDugGame \<Rightarrow> error + ClawDugGame" where
  "settleEpoch e s =
     (let epoch = epochs s (currentEpoch s) in
      if \<not> endTime epoch \<le> block_timestamp e then Inl EpochNotEnded
      else if settled epoch then Inl AlreadySettled
      else
        (let epoch' = epoch\<lparr>settled := True\<rparr>;
             s0 = s\<lparr>epochs := (epochs s)(currentEpoch s := epoch')\<rparr> in
         bind (settle_prizes epoch' s0) (\<lambda>(s1, humanPrize, agentPrize).
         bind (settle_burn epoch' s1) (\<lambda>s2.
         bind (settle_treasury epoch' s2) (\<lambda>s3.
           startNewEpoch e
             (s3\<lparr>events := events s3 @
                 [EpochSettled (currentEpoch s3) (humanWinner epoch') humanPrize
                    (agentWinner epoch') agentPrize]\<rparr>))))))"

subsection \<open>Score submission\<close>

definition distributeEntryFee :: "uint256 \<Rightarrow> ClawDugGame \<Rightarrow> error + ClawDugGame" where
  "distributeEntryFee fee s =
     (let epoch = epochs s (currentEpoch s) in
      bind (checked_mul fee PRIZE_POOL_BPS) (\<lambda>a.
      bind (checked_mul fee BURN_BPS) (\<lambda>b.
      bind (checked_mul fee TREASURY_BPS) (\<lambda>c.
        (let toPrize = a div BPS_DENOM; toBurn = b div BPS_DENOM; toTreasury = c div BPS_DENOM in
         bind (checked_add (prizePool epoch) toPrize) (\<lambda>p.
         bind (checked_add (burnAmount epoch) toBurn) (\<lambda>bu.
         bind (checked_add (treasuryAmount epoch) toTreasury) (\<lambda>tr.
           Inr (s\<lparr>epochs := (epochs s)(currentEpoch s :=
                  epoch\<lparr>prizePool := p, burnAmount := bu, treasuryAmount := tr\<rparr>)\<rparr>)))))))))"

text \<open>The amount \<^verbatim>\<open>total\<close> that \<^verbatim>\<open>_mintGameplayRewards\<close> computes before it mints.\<close>

definition gameplayReward :: "uint256 \<Rightarrow> uint256 \<Rightarrow> error + uint256" where
  "gameplayReward kl rd =
     bind (checked_mul kl REWARD_PER_KILL) (\<lambda>killReward.
     bind (checked_mul rd REWARD_PER_ROUND) (\<lambda>roundReward.
     bind (checked_add killReward roundReward) (\<lambda>t0.
     bind (if 5 \<le> rd then checked_add t0 REWARD_MILESTONE else Inr t0) (\<lambda>t1.
     bind (if 10 \<le> rd then checked_add t1 (REWARD_MILESTONE * 2) else Inr t1) (\<lambda>t2.
          (if 20 \<le> rd then checked_add t2 (REWARD_MILESTONE * 5) else Inr t2))))))"

definition mintGameplayRewards :: "address \<Rightarrow> uint256 \<Rightarrow> uint256 \<Rightarrow> ClawDugGame \<Rightarrow> error + ClawDugGame" where
  "mintGameplayRewards p kl rd s =
     bind (gameplayReward kl rd) (\<lambda>total.
       if 0 < total
       then bind (game_mint p total s) (\<lambda>s1. Inr (s1\<lparr>events := events s1 @ [RewardMinted p total]\<rparr>))
       else Inr s)"

text \<open>The search loop of \<^verbatim>\<open>_updateLeaderboard\<close>: the first \<open>i < count\<close> with
  \<^verbatim>\<open>score > lb[i].score\<close>, or \<open>LB_SIZE\<close> when there is none.\<close>

function findInsertAt :: "ScoreEntry list \<Rightarrow> uint256 \<Rightarrow> nat \<Rightarrow> nat \<Rightarrow> nat" where
  "findInsertAt lb sc count i =
     (if i < count
      then (if score (lb ! i) < sc then i else findInsertAt lb sc count (Suc i))
      else LB_SIZE)"
  by pat_completeness auto
termination
  by (relation "measure (\<lambda>(lb, sc, count, i). count - i)") auto

declare findInsertAt.simps [simp del]

text \<open>The shift loop: \<^verbatim>\<open>for (j = LB_SIZE - 1; j > insertAt; j--) lb[j] = lb[j - 1]\<close>.\<close>

function shiftDown :: "ScoreEntry list \<Rightarrow> nat \<Rightarrow> nat \<Rightarrow> ScoreEntry list" where
  "shiftDown lb insertAt j =
     (if insertAt < j then shiftDown (lb[j := lb ! (j - 1)]) insertAt (j - 1) else lb)"
  by pat_completeness auto
termination
  by (relation "measure (\<lambda>(lb, insertAt, j). j)") auto

declare shiftDown.simps [simp del]

definition insertPosition :: "ScoreEntry list \<Rightarrow> uint256 \<Rightarrow> uint256 \<Rightarrow> nat" where
  "insertPosition lb currentCount sc =
     (let count = (if currentCount < LB_SIZE then currentCount else LB_SIZE);
          insertAt = findInsertAt lb sc count 0 in
      if insertAt = LB_SIZE \<and> count < LB_SIZE then count else insertAt)"

definition updateLeaderboard ::
  "ScoreEntry list \<Rightarrow> uint256 \<Rightarrow> address \<Rightarrow> uint256 \<Rightarrow> uint256 \<Rightarrow> uint256 \<Rightarrow> bool \<Rightarrow> bytes32 \<Rightarrow> uint256
     \<Rightarrow> ScoreEntry list \<times> event list" where
  "updateLeaderboard lb currentCount p sc rd kl ag sid now =
     (let insertAt = insertPosition lb currentCount sc in
      if insertAt < LB_SIZE
      then ((shiftDown lb insertAt (LB_SIZE - 1))[insertAt :=
              \<lparr>player = p, score = sc, round = rd, kills = kl, entryIsAgent = ag,
               timestamp = now, sessionId = sid\<rparr>],
            [LeaderboardUpdated ag insertAt p sc])
      else (lb, []))"

text \<open>Steps 1 and 2 of \<^verbatim>\<open>submitScore\<close>: the three \<^verbatim>\<open>require\<close>s, in the order of the source.\<close>

definition submitScore_checks ::
  "env \<Rightarrow> uint256 \<Rightarrow> uint256 \<Rightarrow> uint256 \<Rightarrow> bytes32 \<Rightarrow> uint256 \<Rightarrow> bytes \<Rightarrow> ClawDugGame \<Rightarrow> error + unit" where
  "submitScore_checks e sc rd kl sid signedAt sg s =
     (if usedSessions s sid then Inl ReplayedSession
      else bind (checked_add signedAt 300) (\<lambda>deadline.
        if \<not> block_timestamp e \<le> deadline then Inl ExpiredSignature
        else (case recover e [msg_sender e, sc, rd, kl, sid, signedAt, block_chainid e] sg of
                None \<Rightarrow> Inl ECDSAInvalidSignature
              | Some recovered \<Rightarrow>
                  if recovered \<noteq> scoreSigner s then Inl InvalidSignature else Inr ())))"

text \<open>Step 5: the entry fee.\<close>

definition entryFee :: "bool \<Rightarrow> ClawDugGame \<Rightarrow> uint256" where
  "entryFee ag s = (if ag then agentEntryFee s else humanEntryFee s)"

definition submitScore_fee :: "env \<Rightarrow> bool \<Rightarrow> ClawDugGame \<Rightarrow> error + ClawDugGame" where
  "submitScore_fee e ag s =
     (let fee = entryFee ag s in
      if fee \<le> allowance (dugToken s) (msg_sender e) (gameAddress s)
      then bind (transferFrom (gameAddress s) (msg_sender e) (gameAddress s) fee (dugToken s))
             (\<lambda>t. distributeEntryFee fee (s\<lparr>dugToken := t\<rparr>))
      else Inr s)"

text \<open>Step 6: \<^verbatim>\<open>registry.recordGame(msg.sender, score)\<close>.\<close>

definition submitScore_registry :: "env \<Rightarrow> uint256 \<Rightarrow> ClawDugGame \<Rightarrow> error + ClawDugGame" where
  "submitScore_registry e sc s =
     bind (recordGame (gameAddress s) (msg_sender e) sc (registry s)) (\<lambda>r. Inr (s\<lparr>registry := r\<rparr>))"

text \<open>Step 8: the leaderboard of the submitter's category and its counter.\<close>

definition submitScore_board ::
  "env \<Rightarrow> bool \<Rightarrow> uint256 \<Rightarrow> uint256 \<Rightarrow> uint256 \<Rightarrow> bytes32 \<Rightarrow> ClawDugGame \<Rightarrow> ClawDugGame" where
  "submitScore_board e ag sc rd kl sid s =
     (if ag then
        (let (lb, evs) = updateLeaderboard (agentLeaderboard s) (agentLBCount s) (msg_sender e)
                           sc rd kl True sid (block_timestamp e) in
         s\<lparr>agentLeaderboard := lb,
           agentLBCount := (if agentLBCount s < LB_SIZE then agentLBCount s + 1 else agentLBCount s),
           events := events s @ evs\<rparr>)
      else
        (let (lb, evs) = updateLeaderboard (humanLeaderboard s) (humanLBCount s) (msg_sender e)
                           sc rd kl False sid (block_timestamp e) in
         s\<lparr>humanLeaderboard := lb,
           humanLBCount := (if humanLBCount s < LB_SIZE then humanLBCount s + 1 else humanLBCount s),
           events := events s @ evs\<rparr>))"

text \<open>Step 9: the top score and winner of the current epoch.\<close>

definition submitScore_top :: "env \<Rightarrow> bool \<Rightarrow> uint256 \<Rightarrow> ClawDugGame \<Rightarrow> ClawDugGame" where
  "submitScore_top e ag sc s =
     (let epoch = epochs s (currentEpoch s);
          epoch1 = (if ag \<and> agentTopScore epoch < sc
                    then epoch\<lparr>agentTopScore := sc, agentWinner := msg_sender e\<rparr> else epoch);
          epoch2 = (if \<not> ag \<and> humanTopScore epoch1 < sc
                    then epoch1\<lparr>humanTopScore := sc, humanWinner := msg_sender e\<rparr> else epoch1) in
      s\<lparr>epochs := (epochs s)(currentEpoch s := epoch2)\<rparr>)"

definition submitScore ::
  "env \<Rightarrow> uint256 \<Rightarrow> uint256 \<Rightarrow> uint256 \<Rightarrow> bytes32 \<Rightarrow> uint256 \<Rightarrow> bytes \<Rightarrow> ClawDugGame \<Rightarrow> error + ClawDugGame" where
  "submitScore e sc rd kl sid signedAt sg s =
     bind (submitScore_checks e sc rd kl sid signedAt sg s) (\<lambda>_.
       (let s1 = s\<lparr>usedSessions := (usedSessions s)(sid := True)\<rparr>;
            ag = isAgent (getProfile (msg_sender e) (registry s1)) in
        bind (submitScore_fee e ag s1) (\<lambda>s2.
        bind (submitScore_registry e sc s2) (\<lambda>s3.
        bind (mintGameplayRewards (msg_sender e) kl rd s3) (\<lambda>s4.
          (let s5 = submitScore_top e ag sc (submitScore_board e ag sc rd kl sid s4) in
           Inr (s5\<lparr>events := events s5 @
                  [ScoreSubmitted (msg_sender e) sc rd kl ag (currentEpoch s5) sid]\<rparr>)))))))"

subsection \<open>Administration and deployment\<close>

definition setScoreSigner :: "env \<Rightarrow> address \<Rightarrow> ClawDugGame \<Rightarrow> error + ClawDugGame" where
  "setScoreSigner e signer s =
     (if msg_sender e \<noteq> gameOwner s then Inl OwnableUnauthorizedAccount
      else Inr (s\<lparr>scoreSigner := signer\<rparr>))"

definition setFees :: "env \<Rightarrow> uint256 \<Rightarrow> uint256 \<Rightarrow> ClawDugGame \<Rightarrow> error + ClawDugGame" where
  "setFees e humanFee agentFee s =
     (if msg_sender e \<noteq> gameOwner s then Inl OwnableUnauthorizedAccount
      else Inr (s\<lparr>humanEntryFee := humanFee, agentEntryFee := agentFee\<rparr>))"

definition setEpochDuration :: "env \<Rightarrow> uint256 \<Rightarrow> ClawDugGame \<Rightarrow> error + ClawDugGame" where
  "setEpochDuration e duration s =
     (if msg_sender e \<noteq> gameOwner s then Inl OwnableUnauthorizedAccount
      else Inr (s\<lparr>epochDuration := duration\<rparr>))"

definition setTreasury :: "env \<Rightarrow> address \<Rightarrow> ClawDugGame \<Rightarrow> error + ClawDugGame" where
  "setTreasury e tr s =
     (if msg_sender e \<noteq> gameOwner s then Inl OwnableUnauthorizedAccount
      else Inr (s\<lparr>treasury := tr\<rparr>))"

definition game_transferOwnership :: "env \<Rightarrow> address \<Rightarrow> ClawDugGame \<Rightarrow> error + ClawDugGame" where
  "game_transferOwnership e newOwner s =
     (if msg_sender e \<noteq> gameOwner s then Inl OwnableUnauthorizedAccount
      else if newOwner = 0 then Inl OwnableInvalidOwner
      else Inr (s\<lparr>gameOwner := newOwner\<rparr>))"

text \<open>
  Deployment: the three constructors, run by one deployer (\<^verbatim>\<open>deploy.sh\<close>). The token and the
  registry start empty and owned by the deployer; the game's constructor stores its four
  arguments and opens epoch 1. \<open>g\<close> is the address the game is created at.
\<close>

definition deploy :: "env \<Rightarrow> address \<Rightarrow> address \<Rightarrow> address \<Rightarrow> error + ClawDugGame" where
  "deploy e g signer tr =
     startNewEpoch e
       \<lparr>dugToken = \<lparr>totalSupply = 0, balanceOf = (\<lambda>_. 0), allowance = (\<lambda>_ _. 0),
                    gameContract = 0, tokenOwner = msg_sender e\<rparr>,
        registry = \<lparr>profiles = (\<lambda>_. emptyProfile), agentIdToWallet = (\<lambda>_. 0), agentList = [],
                    registryOwner = msg_sender e\<rparr>,
        gameAddress = g,
        gameOwner = msg_sender e,
        scoreSigner = signer,
        humanEntryFee = 10 * 10 ^ 18,
        agentEntryFee = 5 * 10 ^ 18,
        humanLeaderboard = replicate LB_SIZE emptyEntry,
        agentLeaderboard = replicate LB_SIZE emptyEntry,
        humanLBCount = 0,
        agentLBCount = 0,
        epochs = (\<lambda>_. emptyEpoch),
        currentEpoch = 0,
        epochDuration = 86400,
        usedSessions = (\<lambda>_. False),
        treasury = tr,
        treasuryBalance = 0,
        events = []\<rparr>"

subsection \<open>Every call that changes the modelled storage\<close>

datatype action =
    SubmitScore uint256 uint256 uint256 bytes32 uint256 bytes
  | SettleEpoch
  | SetScoreSigner address
  | SetFees uint256 uint256
  | SetEpochDuration uint256
  | SetTreasury address
  | GameTransferOwnership address
  | TokenMint address uint256
  | TokenBurn uint256
  | TokenBurnFrom address uint256
  | TokenApprove address uint256
  | TokenTransfer address uint256
  | TokenTransferFrom address address uint256
  | TokenSetGameContract address
  | TokenTransferOwnership address
  | RegistryRegister bytes32 string bool
  | RegistryRecordGame address uint256
  | RegistryTransferOwnership address

definition on_token :: "(DugToken \<Rightarrow> error + DugToken) \<Rightarrow> ClawDugGame \<Rightarrow> error + ClawDugGame" where
  "on_token f s = bind (f (dugToken s)) (\<lambda>t. Inr (s\<lparr>dugToken := t\<rparr>))"

definition on_registry :: "(AgentRegistry \<Rightarrow> error + AgentRegistry) \<Rightarrow> ClawDugGame \<Rightarrow> error + ClawDugGame" where
  "on_registry f s = bind (f (registry s)) (\<lambda>r. Inr (s\<lparr>registry := r\<rparr>))"

fun exec :: "env \<Rightarrow> action \<Rightarrow> ClawDugGame \<Rightarrow> error + ClawDugGame" where
  "exec e (SubmitScore sc rd kl sid signedAt sg) s = submitScore e sc rd kl sid signedAt sg s"
| "exec e SettleEpoch s = settleEpoch e s"
| "exec e (SetScoreSigner a) s = setScoreSigner e a s"
| "exec e (SetFees h a) s = setFees e h a s"
| "exec e (SetEpochDuration d) s = setEpochDuration e d s"
| "exec e (SetTreasury a) s = setTreasury e a s"
| "exec e (GameTransferOwnership a) s = game_transferOwnership e a s"
| "exec e (TokenMint to v) s = on_token (mint (msg_sender e) to v) s"
| "exec e (TokenBurn v) s = on_token (burn (msg_sender e) v) s"
| "exec e (TokenBurnFrom a v) s = on_token (burnFrom (msg_sender e) a v) s"
| "exec e (TokenApprove sp v) s = on_token (approve (msg_sender e) sp v) s"
| "exec e (TokenTransfer to v) s = on_token (transfer (msg_sender e) to v) s"
| "exec e (TokenTransferFrom from to v) s = on_token (transferFrom (msg_sender e) from to v) s"
| "exec e (TokenSetGameContract g) s = on_token (setGameContract (msg_sender e) g) s"
| "exec e (TokenTransferOwnership a) s = on_token (token_transferOwnership (msg_sender e) a) s"
| "exec e (RegistryRegister aid nm ag) s = on_registry (register e aid nm ag) s"
| "exec e (RegistryRecordGame p sc) s = on_registry (recordGame (msg_sender e) p sc) s"
| "exec e (RegistryTransferOwnership a) s = on_registry (registry_transferOwnership (msg_sender e) a) s"

text \<open>The storages that a deployment followed by any sequence of successful calls can reach.\<close>

inductive reachable :: "ClawDugGame \<Rightarrow> bool" where
  deployed: "deploy e g signer tr = Inr s \<Longrightarrow> reachable s"
| step: "reachable s \<Longrightarrow> exec e a s = Inr s' \<Longrightarrow> reachable s'"

subsection \<open>A concrete deployment, used to run the code on explicit inputs\<close>

text \<open>
  The deployer is address 1, the game is created at address 2000, the score signer is 77 and
  the treasury is 9. In \<open>sample_recover\<close> the signature \<open>[1]\<close> stands for one made by the
  signer 77 over any payload, \<open>[]\<close> for bytes the library rejects, anything else for a
  signature made by the stranger 78.
\<close>

definition sample_recover :: "nat list \<Rightarrow> bytes \<Rightarrow> address option" where
  "sample_recover payload sg = (if sg = [] then None else if sg = [1] then Some 77 else Some 78)"

definition call_env :: "address \<Rightarrow> uint256 \<Rightarrow> env" where
  "call_env sender now =
     \<lparr>msg_sender = sender, block_timestamp = now, block_chainid = 8453, recover = sample_recover\<rparr>"

fun run :: "(env \<times> action) list \<Rightarrow> ClawDugGame \<Rightarrow> error + ClawDugGame" where
  "run [] s = Inr s"
| "run ((e, a) # rest) s = bind (exec e a s) (run rest)"

definition genesis :: ClawDugGame where
  "genesis =
     \<lparr>dugToken = \<lparr>totalSupply = 0, balanceOf = (\<lambda>_. 0), allowance = (\<lambda>_ _. 0),
                  gameContract = 0, tokenOwner = 1\<rparr>,
      registry = \<lparr>profiles = (\<lambda>_. emptyProfile), agentIdToWallet = (\<lambda>_. 0), agentList = [],
                  registryOwner = 1\<rparr>,
      gameAddress = 2000, gameOwner = 1, scoreSigner = 77,
      humanEntryFee = 10 * 10 ^ 18, agentEntryFee = 5 * 10 ^ 18,
      humanLeaderboard = replicate LB_SIZE emptyEntry,
      agentLeaderboard = replicate LB_SIZE emptyEntry,
      humanLBCount = 0, agentLBCount = 0,
      epochs = (\<lambda>_. emptyEpoch)(1 :=
        \<lparr>epochId = 1, startTime = 0, endTime = 86400, prizePool = 0, burnAmount = 0,
         treasuryAmount = 0, settled = False, humanWinner = 0, agentWinner = 0,
         humanTopScore = 0, agentTopScore = 0\<rparr>),
      currentEpoch = 1, epochDuration = 86400,
      usedSessions = (\<lambda>_. False), treasury = 9, treasuryBalance = 0,
      events = [EpochStarted 1 0 86400]\<rparr>"

text \<open>After deployment the deployer wires the contracts (steps 4 and 5 of the source's
  deployment notes) and the player 42 registers as an agent.\<close>

definition wiring :: "(env \<times> action) list" where
  "wiring =
     [(call_env 1 1, TokenSetGameContract 2000),
      (call_env 1 2, RegistryTransferOwnership 2000),
      (call_env 42 3, RegistryRegister 4242 ''bot'' True)]"

definition wired :: ClawDugGame where
  "wired = genesis
     \<lparr>dugToken := (dugToken genesis)\<lparr>gameContract := 2000\<rparr>,
      registry := (registry genesis)
        \<lparr>profiles := (profiles (registry genesis))(42 :=
            \<lparr>agentId = 4242, name = ''bot'', wallet = 42, isAgent = True, gamesPlayed = 0,
             totalScore = 0, bestScore = 0, registeredAt = 3\<rparr>),
         agentIdToWallet := (agentIdToWallet (registry genesis))(4242 := 42),
         agentList := [42],
         registryOwner := 2000\<rparr>\<rparr>"

subsection \<open>Auxiliary notions for the properties\<close>

text \<open>The game's storage with the token, the registry, the treasury counter and the event
  log blanked: two storages with the same \<open>game_core\<close> differ in those four fields only.\<close>

definition game_core :: "ClawDugGame \<Rightarrow> ClawDugGame" where
  "game_core s = s\<lparr>dugToken := \<lparr>totalSupply = 0, balanceOf = (\<lambda>_. 0), allowance = (\<lambda>_ _. 0),
                                 gameContract = 0, tokenOwner = 0\<rparr>,
                    registry := \<lparr>profiles = (\<lambda>_. emptyProfile), agentIdToWallet = (\<lambda>_. 0),
                                 agentList = [], registryOwner = 0\<rparr>,
                    treasuryBalance := 0, events := []\<rparr>"


text \<open>The sample deployment after epoch 1, left empty, is settled at time 86400.\<close>

definition rotated :: ClawDugGame where
  "rotated = wired
     \<lparr>epochs := (epochs wired)
        (1 := (epochs wired 1)\<lparr>settled := True\<rparr>,
         2 := \<lparr>epochId = 2, startTime = 86400, endTime = 172800, prizePool = 0,
               burnAmount = 0, treasuryAmount = 0, settled = False, humanWinner = 0,
               agentWinner = 0, humanTopScore = 0, agentTopScore = 0\<rparr>),
      currentEpoch := 2,
      events := [EpochStarted 1 0 86400, EpochSettled 1 0 0 0 0, EpochStarted 2 86400 172800]\<rparr>"

text \<open>The state after any sequence of calls: a call that reverts changes nothing.\<close>

definition after_calls :: "(env \<times> action) list \<Rightarrow> ClawDugGame \<Rightarrow> ClawDugGame" where
  "after_calls calls s = fold (\<lambda>(e, a) s. fst (transact (exec e a) s)) calls s"

text \<open>
  The sample deployment after the agent 42 has submitted score 100 (round 0, one kill,
  session 555, signed at time 5 by the signer) at time 10 without an allowance: no fee is
  taken and the kill reward of 2 DUG is minted.
\<close>

definition played :: ClawDugGame where
  "played = wired
     \<lparr>dugToken := (dugToken wired)
        \<lparr>totalSupply := 2 * 10 ^ 18, balanceOf := (\<lambda>_. 0)(42 := 2 * 10 ^ 18)\<rparr>,
      registry := (registry wired)
        \<lparr>profiles := (profiles (registry wired))(42 :=
            \<lparr>agentId = 4242, name = ''bot'', wallet = 42, isAgent = True, gamesPlayed = 1,
             totalScore = 100, bestScore = 100, registeredAt = 3\<rparr>)\<rparr>,
      agentLeaderboard :=
        \<lparr>player = 42, score = 100, round = 0, kills = 1, entryIsAgent = True, timestamp = 10,
         sessionId = 555\<rparr> # replicate 19 emptyEntry,
      agentLBCount := 1,
      epochs := (epochs wired)(1 := (epochs wired 1)\<lparr>agentWinner := 42, agentTopScore := 100\<rparr>),
      usedSessions := (\<lambda>_. False)(555 := True),
      events := [EpochStarted 1 0 86400, RewardMinted 42 (2 * 10 ^ 18),
                 LeaderboardUpdated True 0 42 100, ScoreSubmitted 42 100 0 1 True 1 555]\<rparr>"

text \<open>The three pools of the current epoch, their total, and the three shares that
  \<^verbatim>\<open>_distributeEntryFee\<close> computes from a fee, added up.\<close>

definition pools :: "ClawDugGame \<Rightarrow> uint256 \<times> uint256 \<times> uint256" where
  "pools s = (let epoch = epochs s (currentEpoch s)
              in (prizePool epoch, burnAmount epoch, treasuryAmount epoch))"

definition poolTotal :: "ClawDugGame \<Rightarrow> nat" where
  "poolTotal s = (case pools s of (p, b, t) \<Rightarrow> p + b + t)"

definition feeShares :: "uint256 \<Rightarrow> nat" where
  "feeShares F = F * PRIZE_POOL_BPS div BPS_DENOM + F * BURN_BPS div BPS_DENOM
                   + F * TREASURY_BPS div BPS_DENOM"

text \<open>The fees of several submissions, distributed one after the other.\<close>

fun distributeAll :: "uint256 list \<Rightarrow> ClawDugGame \<Rightarrow> error + ClawDugGame" where
  "distributeAll [] s = Inr s"
| "distributeAll (F # Fs) s = bind (distributeEntryFee F s) (distributeAll Fs)"

definition fee5 :: ClawDugGame where
  "fee5 = genesis\<lparr>epochs := (epochs genesis)(1 := (epochs genesis 1)
            \<lparr>prizePool := 3, burnAmount := 0, treasuryAmount := 1\<rparr>)\<rparr>"

definition fees15 :: ClawDugGame where
  "fees15 = genesis\<lparr>epochs := (epochs genesis)(1 := (epochs genesis 1)
           \<lparr>prizePool := 105 * 10 ^ 17, burnAmount := 15 * 10 ^ 17, treasuryAmount := 3 * 10 ^ 18\<rparr>)\<rparr>"

definition result_of :: "(ClawDugGame \<Rightarrow> 'a) \<Rightarrow> error + ClawDugGame \<Rightarrow> 'a option" where
  "result_of f r = (case r of Inl _ \<Rightarrow> None | Inr s \<Rightarrow> Some (f s))"

definition sole_winner_calls :: "(env \<times> action) list" where
  "sole_winner_calls =
     [(call_env 1 4, SetFees 10 5),
      (call_env 42 10, SubmitScore 100 0 1 555 5 [1]),
      (call_env 42 11, TokenApprove 2000 5),
      (call_env 42 12, SubmitScore 90 0 0 556 6 [1])]"

definition finishSubmission ::
  "env \<Rightarrow> bool \<Rightarrow> uint256 \<Rightarrow> uint256 \<Rightarrow> uint256 \<Rightarrow> bytes32 \<Rightarrow> ClawDugGame \<Rightarrow> ClawDugGame" where
  "finishSubmission e ag sc rd kl sid s4 =
     (let s5 = submitScore_top e ag sc (submitScore_board e ag sc rd kl sid s4)
      in s5\<lparr>events := events s5 @ [ScoreSubmitted (msg_sender e) sc rd kl ag (currentEpoch s5) sid]\<rparr>)"






definition inserted :: "ScoreEntry list \<Rightarrow> nat \<Rightarrow> ScoreEntry \<Rightarrow> ScoreEntry list" where
  "inserted lb k x = (shiftDown lb k (LB_SIZE - 1))[k := x]"




section \<open>Properties\<close>

subsection \<open>Results of \<open>bind\<close> and of checked arithmetic\<close>


lemmas consts_defs = MAX_UINT256_def MAX_SUPPLY_def PRIZE_POOL_BPS_def BURN_BPS_def TREASURY_BPS_def BPS_DENOM_def
  REWARD_PER_KILL_def REWARD_PER_ROUND_def REWARD_MILESTONE_def LB_SIZE_def

lemma bind_Inr_iff: "bind m f = Inr y \<longleftrightarrow> (\<exists>x. m = Inr x \<and> f x = Inr y)"
  by (cases m) (simp_all add: bind_def)

lemma bind_Inl_iff: "bind m f = Inl e \<longleftrightarrow> (m = Inl e \<or> (\<exists>x. m = Inr x \<and> f x = Inl e))"
  by (cases m) (simp_all add: bind_def)

lemma bind_Inl [simp]: "bind (Inl e) f = Inl e"
  by (simp add: bind_def)

lemma bind_Inr [simp]: "bind (Inr x) f = f x"
  by (simp add: bind_def)

lemma checked_add_Inr: "checked_add a b = Inr c \<longleftrightarrow> (c = a + b \<and> a + b \<le> MAX_UINT256)"
  by (auto simp: checked_add_def)

lemma checked_mul_Inr: "checked_mul a b = Inr c \<longleftrightarrow> (c = a * b \<and> a * b \<le> MAX_UINT256)"
  by (auto simp: checked_mul_def)

lemma checked_add_Inl: "checked_add a b = Inl x \<longleftrightarrow> (x = Panic \<and> MAX_UINT256 < a + b)"
  by (auto simp: checked_add_def)

lemma checked_mul_Inl: "checked_mul a b = Inl x \<longleftrightarrow> (x = Panic \<and> MAX_UINT256 < a * b)"
  by (auto simp: checked_mul_def)

subsection \<open>What each step of a call leaves unchanged\<close>

lemma game_core_fields:
  assumes "game_core s' = game_core s"
  shows "gameAddress s' = gameAddress s" "gameOwner s' = gameOwner s"
    "scoreSigner s' = scoreSigner s" "humanEntryFee s' = humanEntryFee s"
    "agentEntryFee s' = agentEntryFee s" "humanLeaderboard s' = humanLeaderboard s"
    "agentLeaderboard s' = agentLeaderboard s" "humanLBCount s' = humanLBCount s"
    "agentLBCount s' = agentLBCount s" "epochs s' = epochs s"
    "currentEpoch s' = currentEpoch s" "epochDuration s' = epochDuration s"
    "usedSessions s' = usedSessions s" "treasury s' = treasury s"
  using arg_cong [OF assms, of gameAddress] arg_cong [OF assms, of gameOwner]
    arg_cong [OF assms, of scoreSigner] arg_cong [OF assms, of humanEntryFee]
    arg_cong [OF assms, of agentEntryFee] arg_cong [OF assms, of humanLeaderboard]
    arg_cong [OF assms, of agentLeaderboard] arg_cong [OF assms, of humanLBCount]
    arg_cong [OF assms, of agentLBCount] arg_cong [OF assms, of epochs]
    arg_cong [OF assms, of currentEpoch] arg_cong [OF assms, of epochDuration]
    arg_cong [OF assms, of usedSessions] arg_cong [OF assms, of treasury]
  by (simp_all add: game_core_def)

lemma game_mint_core: "game_mint to v s = Inr s' \<Longrightarrow> game_core s' = game_core s"
  by (auto simp: game_mint_def bind_Inr_iff game_core_def)

lemma game_mint_registry: "game_mint to v s = Inr s' \<Longrightarrow> registry s' = registry s"
  by (auto simp: game_mint_def bind_Inr_iff)

lemma game_burn_core: "game_burn v s = Inr s' \<Longrightarrow> game_core s' = game_core s"
  by (auto simp: game_burn_def bind_Inr_iff game_core_def)

lemma game_burn_registry: "game_burn v s = Inr s' \<Longrightarrow> registry s' = registry s"
  by (auto simp: game_burn_def bind_Inr_iff)

lemma settle_prizes_core:
  assumes "settle_prizes ep s = Inr (s', hp, ap)"
  shows "game_core s' = game_core s \<and> registry s' = registry s \<and> events s' = events s"
  using assms unfolding settle_prizes_def Let_def
  by (auto simp: bind_Inr_iff game_mint_def split: if_splits simp: game_core_def)

lemma settle_burn_core:
  assumes "settle_burn ep s = Inr s'"
  shows "game_core s' = game_core s \<and> registry s' = registry s \<and> events s' = events s"
  using assms unfolding settle_burn_def
  by (auto simp: bind_Inr_iff game_mint_def game_burn_def game_core_def split: if_splits)

lemma settle_treasury_core:
  assumes "settle_treasury ep s = Inr s'"
  shows "game_core s' = game_core s \<and> registry s' = registry s \<and> events s' = events s"
  using assms unfolding settle_treasury_def
  by (auto simp: bind_Inr_iff game_mint_def game_core_def split: if_splits)

lemma startNewEpoch_Inr:
  "startNewEpoch e s = Inr s' \<longleftrightarrow>
     (currentEpoch s + 1 \<le> MAX_UINT256 \<and> block_timestamp e + epochDuration s \<le> MAX_UINT256 \<and>
      s' = s\<lparr>currentEpoch := currentEpoch s + 1,
              epochs := (epochs s)(currentEpoch s + 1 :=
                \<lparr>epochId = currentEpoch s + 1, startTime = block_timestamp e,
                 endTime = block_timestamp e + epochDuration s, prizePool = 0,
                 burnAmount = 0, treasuryAmount = 0, settled = False, humanWinner = 0,
                 agentWinner = 0, humanTopScore = 0, agentTopScore = 0\<rparr>),
              events := events s @ [EpochStarted (currentEpoch s + 1) (block_timestamp e)
                                      (block_timestamp e + epochDuration s)]\<rparr>)"
  by (auto simp: startNewEpoch_def bind_Inr_iff checked_add_Inr)

text \<open>What a successful settlement leaves behind.\<close>

lemma settleEpoch_success:
  assumes "settleEpoch e s = Inr s'"
  shows "endTime (epochs s (currentEpoch s)) \<le> block_timestamp e"
    and "\<not> settled (epochs s (currentEpoch s))"
    and "currentEpoch s' = currentEpoch s + 1"
    and "epochDuration s' = epochDuration s"
    and "epochs s' (currentEpoch s') =
           \<lparr>epochId = currentEpoch s + 1, startTime = block_timestamp e,
            endTime = block_timestamp e + epochDuration s, prizePool = 0,
            burnAmount = 0, treasuryAmount = 0, settled = False, humanWinner = 0,
            agentWinner = 0, humanTopScore = 0, agentTopScore = 0\<rparr>"
    and "epochs s' (currentEpoch s) = (epochs s (currentEpoch s))\<lparr>settled := True\<rparr>"
    and "usedSessions s' = usedSessions s"
    and "humanLeaderboard s' = humanLeaderboard s"
    and "agentLeaderboard s' = agentLeaderboard s"
    and "humanLBCount s' = humanLBCount s"
    and "agentLBCount s' = agentLBCount s"
    and "registry s' = registry s"
proof -
  from assms obtain s0 s1 s2 s3 hp ap where
    t: "endTime (epochs s (currentEpoch s)) \<le> block_timestamp e"
    and u: "\<not> settled (epochs s (currentEpoch s))"
    and s0: "s0 = s\<lparr>epochs := (epochs s)(currentEpoch s := (epochs s (currentEpoch s))\<lparr>settled := True\<rparr>)\<rparr>"
    and p: "settle_prizes ((epochs s (currentEpoch s))\<lparr>settled := True\<rparr>) s0 = Inr (s1, hp, ap)"
    and b: "settle_burn ((epochs s (currentEpoch s))\<lparr>settled := True\<rparr>) s1 = Inr s2"
    and tr: "settle_treasury ((epochs s (currentEpoch s))\<lparr>settled := True\<rparr>) s2 = Inr s3"
    and n: "startNewEpoch e (s3\<lparr>events := events s3 @
                 [EpochSettled (currentEpoch s3) (humanWinner (epochs s (currentEpoch s))) hp
                    (agentWinner (epochs s (currentEpoch s))) ap]\<rparr>) = Inr s'"
    unfolding settleEpoch_def Let_def
    by (auto simp: bind_Inr_iff split: if_splits)
  have c: "game_core s3 = game_core s0" and r: "registry s3 = registry s0"
    using settle_prizes_core [OF p] settle_burn_core [OF b] settle_treasury_core [OF tr]
    by simp_all
  note f = game_core_fields [OF c]
  show "endTime (epochs s (currentEpoch s)) \<le> block_timestamp e" by (rule t)
  show "\<not> settled (epochs s (currentEpoch s))" by (rule u)
  from n show "currentEpoch s' = currentEpoch s + 1"
    by (simp add: startNewEpoch_Inr f s0)
  from n show "epochDuration s' = epochDuration s"
    by (auto simp add: startNewEpoch_Inr f r s0)
  from n show "epochs s' (currentEpoch s') =
           \<lparr>epochId = currentEpoch s + 1, startTime = block_timestamp e,
            endTime = block_timestamp e + epochDuration s, prizePool = 0,
            burnAmount = 0, treasuryAmount = 0, settled = False, humanWinner = 0,
            agentWinner = 0, humanTopScore = 0, agentTopScore = 0\<rparr>"
    by (auto simp add: startNewEpoch_Inr f r s0)
  from n show "epochs s' (currentEpoch s) = (epochs s (currentEpoch s))\<lparr>settled := True\<rparr>"
    by (auto simp add: startNewEpoch_Inr f r s0)
  from n show "usedSessions s' = usedSessions s" by (auto simp add: startNewEpoch_Inr f r s0)
  from n show "humanLeaderboard s' = humanLeaderboard s" by (auto simp add: startNewEpoch_Inr f r s0)
  from n show "agentLeaderboard s' = agentLeaderboard s" by (auto simp add: startNewEpoch_Inr f r s0)
  from n show "humanLBCount s' = humanLBCount s" by (auto simp add: startNewEpoch_Inr f r s0)
  from n show "agentLBCount s' = agentLBCount s" by (auto simp add: startNewEpoch_Inr f r s0)
  from n show "registry s' = registry s" by (auto simp add: startNewEpoch_Inr f r s0)
qed


lemma distributeEntryFee_success:
  assumes "distributeEntryFee F s = Inr s'"
  shows "s' = s\<lparr>epochs := (epochs s)(currentEpoch s := (epochs s (currentEpoch s))
           \<lparr>prizePool := prizePool (epochs s (currentEpoch s)) + F * PRIZE_POOL_BPS div BPS_DENOM,
            burnAmount := burnAmount (epochs s (currentEpoch s)) + F * BURN_BPS div BPS_DENOM,
            treasuryAmount := treasuryAmount (epochs s (currentEpoch s)) + F * TREASURY_BPS div BPS_DENOM\<rparr>)\<rparr>"
  using assms unfolding distributeEntryFee_def Let_def
  by (auto simp: bind_Inr_iff checked_add_Inr checked_mul_Inr)

lemma submitScore_fee_success:
  assumes "submitScore_fee e ag s = Inr s'"
  shows "game_core s' = game_core (s\<lparr>epochs := epochs s'\<rparr>)"
    and "registry s' = registry s" and "events s' = events s"
    and "settled (epochs s' n) = settled (epochs s n)"
    and "humanWinner (epochs s' n) = humanWinner (epochs s n)"
    and "agentWinner (epochs s' n) = agentWinner (epochs s n)"
    and "humanTopScore (epochs s' n) = humanTopScore (epochs s n)"
    and "agentTopScore (epochs s' n) = agentTopScore (epochs s n)"
    and "endTime (epochs s' n) = endTime (epochs s n)"
  using assms unfolding submitScore_fee_def Let_def
  by (auto simp: bind_Inr_iff game_core_def split: if_splits dest!: distributeEntryFee_success)

lemma submitScore_registry_success:
  assumes "submitScore_registry e sc s = Inr s'"
  shows "game_core s' = game_core s" and "dugToken s' = dugToken s" and "events s' = events s"
  using assms unfolding submitScore_registry_def
  by (auto simp: bind_Inr_iff game_core_def)

lemma mintGameplayRewards_success:
  assumes "mintGameplayRewards p kl rd s = Inr s'"
  shows "game_core s' = game_core s" and "registry s' = registry s"
  using assms unfolding mintGameplayRewards_def
  by (auto simp: bind_Inr_iff game_core_def game_mint_def split: if_splits)

lemma submitScore_checks_Inr:
  "submitScore_checks e sc rd kl sid signedAt sg s = Inr u \<longleftrightarrow>
     (\<not> usedSessions s sid \<and> signedAt + 300 \<le> MAX_UINT256 \<and> block_timestamp e \<le> signedAt + 300 \<and>
      recover e [msg_sender e, sc, rd, kl, sid, signedAt, block_chainid e] sg = Some (scoreSigner s))"
  unfolding submitScore_checks_def
  by (auto simp: bind_Inr_iff checked_add_Inr split: option.splits)

text \<open>The pieces of a successful submission.\<close>

lemma submitScore_Inr:
  assumes "submitScore e sc rd kl sid signedAt sg s = Inr s'"
  obtains s2 s3 s4 where
    "submitScore_checks e sc rd kl sid signedAt sg s = Inr ()"
    "submitScore_fee e (isAgent (profiles (registry s) (msg_sender e)))
       (s\<lparr>usedSessions := (usedSessions s)(sid := True)\<rparr>) = Inr s2"
    "submitScore_registry e sc s2 = Inr s3"
    "mintGameplayRewards (msg_sender e) kl rd s3 = Inr s4"
    "s' = (let ag = isAgent (profiles (registry s) (msg_sender e));
               s5 = submitScore_top e ag sc (submitScore_board e ag sc rd kl sid s4)
           in s5\<lparr>events := events s5 @ [ScoreSubmitted (msg_sender e) sc rd kl ag (currentEpoch s5) sid]\<rparr>)"
  using assms unfolding submitScore_def Let_def
  by (auto simp: bind_Inr_iff getProfile_def)

lemma submitScore_board_fields:
  "usedSessions (submitScore_board e ag sc rd kl sid s) = usedSessions s"
  "epochs (submitScore_board e ag sc rd kl sid s) = epochs s"
  "currentEpoch (submitScore_board e ag sc rd kl sid s) = currentEpoch s"
  "epochDuration (submitScore_board e ag sc rd kl sid s) = epochDuration s"
  "dugToken (submitScore_board e ag sc rd kl sid s) = dugToken s"
  "registry (submitScore_board e ag sc rd kl sid s) = registry s"
  "gameAddress (submitScore_board e ag sc rd kl sid s) = gameAddress s"
  by (simp_all add: submitScore_board_def Let_def split: prod.splits)

lemma submitScore_top_fields:
  "usedSessions (submitScore_top e ag sc s) = usedSessions s"
  "currentEpoch (submitScore_top e ag sc s) = currentEpoch s"
  "epochDuration (submitScore_top e ag sc s) = epochDuration s"
  "dugToken (submitScore_top e ag sc s) = dugToken s"
  "registry (submitScore_top e ag sc s) = registry s"
  "gameAddress (submitScore_top e ag sc s) = gameAddress s"
  "humanLeaderboard (submitScore_top e ag sc s) = humanLeaderboard s"
  "agentLeaderboard (submitScore_top e ag sc s) = agentLeaderboard s"
  "humanLBCount (submitScore_top e ag sc s) = humanLBCount s"
  "agentLBCount (submitScore_top e ag sc s) = agentLBCount s"
  "events (submitScore_top e ag sc s) = events s"
  "settled (epochs (submitScore_top e ag sc s) n) = settled (epochs s n)"
  "endTime (epochs (submitScore_top e ag sc s) n) = endTime (epochs s n)"
  "prizePool (epochs (submitScore_top e ag sc s) n) = prizePool (epochs s n)"
  "burnAmount (epochs (submitScore_top e ag sc s) n) = burnAmount (epochs s n)"
  "treasuryAmount (epochs (submitScore_top e ag sc s) n) = treasuryAmount (epochs s n)"
  by (simp_all add: submitScore_top_def Let_def)

lemma submitScore_success:
  assumes "submitScore e sc rd kl sid signedAt sg s = Inr s'"
  shows "\<not> usedSessions s sid"
    and "usedSessions s' = (usedSessions s)(sid := True)"
    and "currentEpoch s' = currentEpoch s"
    and "epochDuration s' = epochDuration s"
    and "gameAddress s' = gameAddress s"
    and "settled (epochs s' n) = settled (epochs s n)"
    and "endTime (epochs s' n) = endTime (epochs s n)"
proof -
  from assms obtain s2 s3 s4 where
    c: "submitScore_checks e sc rd kl sid signedAt sg s = Inr ()"
    and f: "submitScore_fee e (isAgent (profiles (registry s) (msg_sender e)))
       (s\<lparr>usedSessions := (usedSessions s)(sid := True)\<rparr>) = Inr s2"
    and r: "submitScore_registry e sc s2 = Inr s3"
    and m: "mintGameplayRewards (msg_sender e) kl rd s3 = Inr s4"
    and s': "s' = (let ag = isAgent (profiles (registry s) (msg_sender e));
               s5 = submitScore_top e ag sc (submitScore_board e ag sc rd kl sid s4)
           in s5\<lparr>events := events s5 @ [ScoreSubmitted (msg_sender e) sc rd kl ag (currentEpoch s5) sid]\<rparr>)"
    by (rule submitScore_Inr)
  note f2 = game_core_fields [OF submitScore_fee_success(1) [OF f], simplified]
  note f3 = game_core_fields [OF submitScore_registry_success(1) [OF r]]
  note f4 = game_core_fields [OF mintGameplayRewards_success(1) [OF m]]
  from c show "\<not> usedSessions s sid" by (simp add: submitScore_checks_Inr)
  show "usedSessions s' = (usedSessions s)(sid := True)"
    by (simp add: s' Let_def submitScore_top_fields submitScore_board_fields f4 f3 f2)
  show "currentEpoch s' = currentEpoch s"
    by (simp add: s' Let_def submitScore_top_fields submitScore_board_fields f4 f3 f2)
  show "epochDuration s' = epochDuration s"
    by (simp add: s' Let_def submitScore_top_fields submitScore_board_fields f4 f3 f2)
  show "gameAddress s' = gameAddress s"
    by (simp add: s' Let_def submitScore_top_fields submitScore_board_fields f4 f3 f2)
  show "settled (epochs s' n) = settled (epochs s n)"
    by (simp add: s' Let_def submitScore_top_fields submitScore_board_fields f4 f3
        submitScore_fee_success(4) [OF f])
  show "endTime (epochs s' n) = endTime (epochs s n)"
    by (simp add: s' Let_def submitScore_top_fields submitScore_board_fields f4 f3
        submitScore_fee_success(9) [OF f])
qed

subsection \<open>Calls other than a submission or a settlement\<close>

lemma exec_other_ledger:
  assumes "exec e a s = Inr s'"
    and "\<And>sc rd kl sid signedAt sg. a \<noteq> SubmitScore sc rd kl sid signedAt sg"
    and "a \<noteq> SettleEpoch"
  shows "epochs s' = epochs s" and "currentEpoch s' = currentEpoch s"
    and "usedSessions s' = usedSessions s"
    and "humanLeaderboard s' = humanLeaderboard s" and "agentLeaderboard s' = agentLeaderboard s"
    and "humanLBCount s' = humanLBCount s" and "agentLBCount s' = agentLBCount s"
    and "gameAddress s' = gameAddress s"
  using assms
  by (cases a;
      auto simp: setScoreSigner_def setFees_def setEpochDuration_def setTreasury_def
        game_transferOwnership_def on_token_def on_registry_def bind_Inr_iff
        split: if_splits)+

lemma action_cases:
  obtains (submit) sc rd kl sid signedAt sg where "a = SubmitScore sc rd kl sid signedAt sg"
  | (settle) "a = SettleEpoch"
  | (other) "\<And>sc rd kl sid signedAt sg. a \<noteq> SubmitScore sc rd kl sid signedAt sg" "a \<noteq> SettleEpoch"
  by (cases a) auto

lemma exec_usedSessions_mono:
  assumes "exec e a s = Inr s'" and "usedSessions s sid"
  shows "usedSessions s' sid"
proof (cases a rule: action_cases)
  case (submit sc rd kl sid' signedAt sg)
  with assms show ?thesis by (simp add: submitScore_success(2))
next
  case settle
  with assms show ?thesis by (simp add: settleEpoch_success(7))
next
  case other
  with assms show ?thesis by (simp add: exec_other_ledger(3) [OF assms(1)])
qed

lemma deploy_Inr:
  assumes "deploy e g signer tr = Inr s"
  shows "currentEpoch s = 1" and "\<not> settled (epochs s (currentEpoch s))"
    and "usedSessions s = (\<lambda>_. False)"
    and "humanLeaderboard s = replicate LB_SIZE emptyEntry"
    and "agentLeaderboard s = replicate LB_SIZE emptyEntry"
    and "humanLBCount s = 0" and "agentLBCount s = 0"
    and "totalSupply (dugToken s) = 0" and "balanceOf (dugToken s) = (\<lambda>_. 0)"
  using assms unfolding deploy_def startNewEpoch_Inr by simp_all

lemma reachable_unsettled:
  assumes "reachable s"
  shows "\<not> settled (epochs s (currentEpoch s))"
  using assms
proof (induction rule: reachable.induct)
  case (deployed e g signer tr s)
  then show ?case by (simp add: deploy_Inr(2))
next
  case (step s e a s')
  show ?case
  proof (cases a rule: action_cases)
    case (submit sc rd kl sid signedAt sg)
    with step show ?thesis by (simp add: submitScore_success)
  next
    case settle
    with step show ?thesis by (simp add: settleEpoch_success(5))
  next
    case other
    with step show ?thesis by (simp add: exec_other_ledger [OF step(2)])
  qed
qed

subsection \<open>The concrete deployment\<close>

lemma deploy_genesis: "deploy (call_env 1 0) 2000 77 9 = Inr genesis"
  by (simp add: deploy_def startNewEpoch_def checked_add_def MAX_UINT256_def call_env_def genesis_def)

lemma run_wiring: "run wiring genesis = Inr wired"
  by (simp add: wiring_def wired_def genesis_def call_env_def on_token_def on_registry_def
     setGameContract_def registry_transferOwnership_def register_def emptyProfile_def Let_def)

lemma reachable_run:
  assumes "reachable s" and "run acts s = Inr s'"
  shows "reachable s'"
  using assms
proof (induction acts arbitrary: s)
  case Nil
  then show ?case by simp
next
  case (Cons x acts)
  obtain e a where x: "x = (e, a)" by (cases x)
  from Cons.prems(2) obtain s1 where "exec e a s = Inr s1" and "run acts s1 = Inr s'"
    by (auto simp: x bind_Inr_iff)
  with Cons.IH Cons.prems(1) show ?case by (blast intro: reachable.step)
qed

lemma reachable_genesis: "reachable genesis"
  using deploy_genesis by (rule reachable.deployed)

lemma reachable_wired: "reachable wired"
  using reachable_genesis run_wiring by (rule reachable_run)

subsection \<open>Settlement\<close>

text \<open>
  Claim C10, as amended. In a reachable storage, a settlement called at or after the end of
  a current epoch whose three pools are zero succeeds provided the two checked additions of
  \<^verbatim>\<open>_startNewEpoch\<close> fit 256 bits (\<open>currentEpoch + 1\<close> and \<open>now + epochDuration\<close>). The
  result is the old storage with the epoch marked settled, the token untouched (nothing is
  minted or burned), \<open>EpochSettled\<close> logged with both prizes zero, and a new epoch with
  id \<open>currentEpoch + 1\<close>, start \<open>now\<close> and end \<open>now + epochDuration\<close>.
\<close>

theorem C10_settle_empty_epoch:
  assumes "reachable s"
    and "endTime (epochs s (currentEpoch s)) \<le> block_timestamp e"
    and "prizePool (epochs s (currentEpoch s)) = 0"
    and "burnAmount (epochs s (currentEpoch s)) = 0"
    and "treasuryAmount (epochs s (currentEpoch s)) = 0"
    and "currentEpoch s + 1 \<le> MAX_UINT256"
    and "block_timestamp e + epochDuration s \<le> MAX_UINT256"
  shows "settleEpoch e s =
     Inr (s\<lparr>epochs := (epochs s)
              (currentEpoch s := (epochs s (currentEpoch s))\<lparr>settled := True\<rparr>,
               currentEpoch s + 1 :=
                 \<lparr>epochId = currentEpoch s + 1, startTime = block_timestamp e,
                  endTime = block_timestamp e + epochDuration s, prizePool = 0,
                  burnAmount = 0, treasuryAmount = 0, settled = False, humanWinner = 0,
                  agentWinner = 0, humanTopScore = 0, agentTopScore = 0\<rparr>),
            currentEpoch := currentEpoch s + 1,
            events := events s @
              [EpochSettled (currentEpoch s) (humanWinner (epochs s (currentEpoch s))) 0
                 (agentWinner (epochs s (currentEpoch s))) 0,
               EpochStarted (currentEpoch s + 1) (block_timestamp e)
                 (block_timestamp e + epochDuration s)]\<rparr>)"
proof -
  have u: "\<not> settled (epochs s (currentEpoch s))"
    using assms(1) by (rule reachable_unsettled)
  show ?thesis
    using assms(2-7) u
    by (simp add: settleEpoch_def Let_def settle_prizes_def settle_burn_def settle_treasury_def
        startNewEpoch_def checked_add_def)
qed

theorem C10_settle_empty_epoch_witness:
  "reachable wired \<and>
   settleEpoch (call_env 5 86400) wired =
     Inr (wired\<lparr>epochs := (epochs wired)
              (1 := (epochs wired 1)\<lparr>settled := True\<rparr>,
               2 := \<lparr>epochId = 2, startTime = 86400, endTime = 172800, prizePool = 0,
                     burnAmount = 0, treasuryAmount = 0, settled = False, humanWinner = 0,
                     agentWinner = 0, humanTopScore = 0, agentTopScore = 0\<rparr>),
            currentEpoch := 2,
            events := [EpochStarted 1 0 86400, EpochSettled 1 0 0 0 0,
                       EpochStarted 2 86400 172800]\<rparr>)"
proof -
  have h: "endTime (epochs wired (currentEpoch wired)) \<le> block_timestamp (call_env 5 86400)"
    "prizePool (epochs wired (currentEpoch wired)) = 0"
    "burnAmount (epochs wired (currentEpoch wired)) = 0"
    "treasuryAmount (epochs wired (currentEpoch wired)) = 0"
    "currentEpoch wired + 1 \<le> MAX_UINT256"
    "block_timestamp (call_env 5 86400) + epochDuration wired \<le> MAX_UINT256"
    by (simp_all add: wired_def genesis_def call_env_def MAX_UINT256_def)
  have f: "currentEpoch wired = 1" "epochDuration wired = 86400"
    "events wired = [EpochStarted 1 0 86400]" "block_timestamp (call_env 5 86400) = 86400"
    "humanWinner (epochs wired (Suc 0)) = 0" "agentWinner (epochs wired (Suc 0)) = 0"
    by (simp_all add: wired_def genesis_def call_env_def)
  show ?thesis
    using C10_settle_empty_epoch [OF reachable_wired h] reachable_wired
    by (simp add: f numeral_2_eq_2)
qed

text \<open>
  Without the proviso the claim fails: after the owner sets \<open>epochDuration\<close> to
  \<open>2 ^ 256 - 1\<close>, settling the ended, empty epoch 1 at time 86400 reverts with a panic in
  \<^verbatim>\<open>block.timestamp + epochDuration\<close>.
\<close>

theorem C10_counterexample:
  "exec (call_env 1 50) (SetEpochDuration (2 ^ 256 - 1)) wired =
     Inr (wired\<lparr>epochDuration := 2 ^ 256 - 1\<rparr>) \<and>
   prizePool (epochs wired 1) = 0 \<and> burnAmount (epochs wired 1) = 0 \<and>
   treasuryAmount (epochs wired 1) = 0 \<and> endTime (epochs wired 1) = 86400 \<and>
   settleEpoch (call_env 5 86400) (wired\<lparr>epochDuration := 2 ^ 256 - 1\<rparr>) = Inl Panic"
  by (simp add: wired_def genesis_def call_env_def setEpochDuration_def settleEpoch_def Let_def
      settle_prizes_def settle_burn_def settle_treasury_def startNewEpoch_def checked_add_def
      MAX_UINT256_def)

text \<open>
  Claim C2, as amended. After a successful settlement, a second call made before the end of
  the epoch that the first call opened (\<open>now + epochDuration\<close>) fails with \<open>EpochNotEnded\<close>
  and leaves the storage written by the first call as it is. No later call can fail with
  \<open>AlreadySettled\<close> in that storage: the current epoch is the new, unsettled one, while the
  epoch the first call settled stays marked settled.
\<close>

theorem C2_second_settlement:
  assumes "settleEpoch e s = Inr s1"
    and "block_timestamp e' < block_timestamp e + epochDuration s"
  shows "transact (settleEpoch e') s1 = (s1, Some EpochNotEnded) \<and>
         settleEpoch e'' s1 \<noteq> Inl AlreadySettled \<and>
         settled (epochs s1 (currentEpoch s))"
proof -
  note f = settleEpoch_success [OF assms(1)]
  have a: "settleEpoch e' s1 = Inl EpochNotEnded"
    using assms(2) by (simp add: settleEpoch_def Let_def f(5))
  have b: "settleEpoch e'' s1 \<noteq> Inl AlreadySettled"
    by (simp add: settleEpoch_def Let_def f(5) bind_Inl_iff settle_prizes_def settle_burn_def
        settle_treasury_def startNewEpoch_def checked_add_def)
  have c: "settled (epochs s1 (currentEpoch s))"
    by (simp add: f(6))
  from a b c show ?thesis by (simp add: transact_def)
qed


lemma settle_wired: "settleEpoch (call_env 5 86400) wired = Inr rotated"
  by (simp add: rotated_def wired_def genesis_def call_env_def settleEpoch_def Let_def
      settle_prizes_def settle_burn_def settle_treasury_def startNewEpoch_def checked_add_def
      MAX_UINT256_def del: One_nat_def)

theorem C2_second_settlement_witness:
  "settleEpoch (call_env 5 86400) wired = Inr rotated \<and>
   transact (settleEpoch (call_env 5 86400)) rotated = (rotated, Some EpochNotEnded) \<and>
   settleEpoch (call_env 5 200000) rotated \<noteq> Inl AlreadySettled \<and>
   settled (epochs rotated 1)"
proof -
  have h: "block_timestamp (call_env 5 86400) < block_timestamp (call_env 5 86400) + epochDuration wired"
    by (simp add: call_env_def wired_def genesis_def)
  have f: "currentEpoch wired = 1"
    by (simp add: wired_def genesis_def)
  show ?thesis
    using C2_second_settlement [OF settle_wired h, of "call_env 5 200000"] settle_wired
    by (simp add: f)
qed

text \<open>
  The claim as stated fails: settling epoch 1 of the sample deployment at time 86400 succeeds,
  and the immediately following call reverts with \<open>EpochNotEnded\<close>, not \<open>AlreadySettled\<close>.
\<close>

theorem C2_counterexample:
  "settleEpoch (call_env 5 86400) wired = Inr rotated \<and>
   settleEpoch (call_env 5 86400) rotated = Inl EpochNotEnded"
  by (simp add: settle_wired)
     (simp add: rotated_def wired_def genesis_def call_env_def settleEpoch_def Let_def)

lemmas submit_defs = submitScore_def submitScore_checks_def getProfile_def submitScore_fee_def
  entryFee_def submitScore_registry_def recordGame_def mintGameplayRewards_def gameplayReward_def
  game_mint_def mint_def erc20_mint_def erc20_update_def submitScore_board_def submitScore_top_def
  updateLeaderboard_def insertPosition_def findInsertAt.simps shiftDown.simps
  transferFrom_def erc20_spendAllowance_def
  erc20_transfer_def distributeEntryFee_def

lemma replicate_update_same: "(replicate n x)[i := x] = replicate n x"
  by (induction n arbitrary: i) (simp_all split: nat.split)

lemma replicate_20_head: "(replicate 20 x)[0 := y] = y # replicate 19 x"
  by (simp add: numeral_eq_Suc)

lemma submit_wired: "submitScore (call_env 42 10) 100 0 1 555 5 [1] wired = Inr played"
  by (simp add: submit_defs played_def wired_def genesis_def call_env_def sample_recover_def
      checked_add_def checked_mul_def consts_defs Let_def replicate_update_same replicate_20_head
      del: One_nat_def)


subsection \<open>The checks of a submission\<close>

lemma submitScore_replayed:
  "usedSessions s sid \<Longrightarrow> submitScore e sc rd kl sid signedAt sg s = Inl ReplayedSession"
  by (simp add: submitScore_def submitScore_checks_def)

lemma submitScore_checks_Inl:
  assumes "submitScore_checks e sc rd kl sid signedAt sg s = Inl x"
  shows "submitScore e sc rd kl sid signedAt sg s = Inl x"
  using assms by (simp add: submitScore_def)

lemma erc20_update_not_expired: "erc20_update from to v t \<noteq> Inl ExpiredSignature"
  by (auto simp: erc20_update_def bind_Inl_iff checked_add_Inl)

lemma mint_not_expired: "mint c to v t \<noteq> Inl ExpiredSignature"
  by (auto simp: mint_def erc20_mint_def bind_Inl_iff checked_add_Inl erc20_update_not_expired)

lemma transferFrom_not_expired: "transferFrom c from to v t \<noteq> Inl ExpiredSignature"
  by (auto simp: transferFrom_def erc20_spendAllowance_def erc20_transfer_def Let_def
      bind_Inl_iff erc20_update_not_expired)

lemma distributeEntryFee_not_expired: "distributeEntryFee F s \<noteq> Inl ExpiredSignature"
  by (auto simp: distributeEntryFee_def Let_def bind_Inl_iff checked_add_Inl checked_mul_Inl)

lemma submitScore_fee_not_expired: "submitScore_fee e ag s \<noteq> Inl ExpiredSignature"
  by (auto simp: submitScore_fee_def Let_def bind_Inl_iff transferFrom_not_expired
      distributeEntryFee_not_expired)

lemma submitScore_registry_not_expired: "submitScore_registry e sc s \<noteq> Inl ExpiredSignature"
  by (auto simp: submitScore_registry_def recordGame_def Let_def bind_Inl_iff checked_add_Inl)

lemma gameplayReward_not_expired: "gameplayReward kl rd \<noteq> Inl ExpiredSignature"
  by (auto simp: gameplayReward_def bind_Inl_iff checked_add_Inl checked_mul_Inl)

lemma mintGameplayRewards_not_expired: "mintGameplayRewards p kl rd s \<noteq> Inl ExpiredSignature"
  by (auto simp: mintGameplayRewards_def game_mint_def bind_Inl_iff gameplayReward_not_expired
      mint_not_expired)

lemma submitScore_after_checks_not_expired:
  assumes "submitScore_checks e sc rd kl sid signedAt sg s = Inr ()"
  shows "submitScore e sc rd kl sid signedAt sg s \<noteq> Inl ExpiredSignature"
  using assms
  by (auto simp: submitScore_def Let_def bind_Inl_iff submitScore_fee_not_expired
      submitScore_registry_not_expired mintGameplayRewards_not_expired)

text \<open>
  Claim C9, as amended. For a validly signed submission whose session has not been consumed,
  \<^verbatim>\<open>submitScore\<close> fails with \<open>ExpiredSignature\<close> exactly when the current time exceeds
  \<open>signedAt + 300\<close>: it is accepted at \<open>signedAt + 299\<close> and at \<open>signedAt + 300\<close>, and it
  is rejected at \<open>signedAt + 301\<close>.
\<close>

theorem C9_freshness_boundary:
  assumes "\<not> usedSessions s sid"
    and "recover e [msg_sender e, sc, rd, kl, sid, signedAt, block_chainid e] sg = Some (scoreSigner s)"
    and "block_timestamp e \<le> MAX_UINT256"
  shows "submitScore e sc rd kl sid signedAt sg s = Inl ExpiredSignature
           \<longleftrightarrow> signedAt + 300 < block_timestamp e"
proof (cases "signedAt + 300 \<le> MAX_UINT256")
  case False
  with assms(1) have "submitScore e sc rd kl sid signedAt sg s = Inl Panic"
    by (simp add: submitScore_def submitScore_checks_def checked_add_def)
  with False assms(3) show ?thesis by simp
next
  case True
  show ?thesis
  proof (cases "block_timestamp e \<le> signedAt + 300")
    case fresh: True
    with True assms have "submitScore_checks e sc rd kl sid signedAt sg s = Inr ()"
      by (simp add: submitScore_checks_Inr)
    then have "submitScore e sc rd kl sid signedAt sg s \<noteq> Inl ExpiredSignature"
      by (rule submitScore_after_checks_not_expired)
    with fresh show ?thesis by simp
  next
    case stale: False
    with True assms(1) have "submitScore e sc rd kl sid signedAt sg s = Inl ExpiredSignature"
      by (simp add: submitScore_def submitScore_checks_def checked_add_def)
    with stale show ?thesis by simp
  qed
qed

lemma sample_signed:
  "recover (call_env p now) [msg_sender (call_env p now), sc, rd, kl, sid, signedAt,
     block_chainid (call_env p now)] [1] = Some 77"
  by (simp add: call_env_def sample_recover_def)

theorem C9_freshness_boundary_witness:
  "submitScore (call_env 42 306) 100 0 1 555 5 [1] wired = Inl ExpiredSignature \<and>
   submitScore (call_env 42 305) 100 0 1 555 5 [1] wired \<noteq> Inl ExpiredSignature \<and>
   submitScore (call_env 42 304) 100 0 1 555 5 [1] wired \<noteq> Inl ExpiredSignature"
proof -
  have u: "\<not> usedSessions wired 555"
    by (simp add: wired_def genesis_def)
  have g: "recover (call_env 42 now) [msg_sender (call_env 42 now), 100, 0, 1, 555, 5,
             block_chainid (call_env 42 now)] [1] = Some (scoreSigner wired)" for now
    by (simp add: call_env_def sample_recover_def wired_def genesis_def)
  have t: "block_timestamp (call_env 42 now) = now" for now
    by (simp add: call_env_def)
  have m: "block_timestamp (call_env 42 306) \<le> MAX_UINT256"
    "block_timestamp (call_env 42 305) \<le> MAX_UINT256"
    "block_timestamp (call_env 42 304) \<le> MAX_UINT256"
    by (simp_all add: MAX_UINT256_def call_env_def)
  show ?thesis
    using C9_freshness_boundary [OF u g m(1)] C9_freshness_boundary [OF u g m(2)]
      C9_freshness_boundary [OF u g m(3)]
    by (simp add: t)
qed

text \<open>
  The claim as stated fails when the session has been consumed: the replay check comes
  first. The submission below is validly signed and 995 seconds old, and it fails with
  \<open>ReplayedSession\<close>, not \<open>ExpiredSignature\<close>.
\<close>

theorem C9_counterexample:
  "recover (call_env 42 1000) [42, 100, 0, 1, 555, 5, 8453] [1] = Some (scoreSigner played) \<and>
   5 + 300 < block_timestamp (call_env 42 1000) \<and>
   submitScore (call_env 42 1000) 100 0 1 555 5 [1] played = Inl ReplayedSession"
  by (simp add: call_env_def sample_recover_def played_def wired_def genesis_def
      submitScore_def submitScore_checks_def)




subsection \<open>Replay protection\<close>

lemma transact_usedSessions_mono:
  assumes "usedSessions s sid"
  shows "usedSessions (fst (transact (exec e a) s)) sid"
proof (cases "exec e a s")
  case (Inl x)
  with assms show ?thesis by (simp add: transact_def)
next
  case (Inr s')
  with assms show ?thesis by (simp add: transact_def exec_usedSessions_mono)
qed

lemma after_calls_usedSessions_mono:
  assumes "usedSessions s sid"
  shows "usedSessions (after_calls calls s) sid"
  using assms
proof (induction calls arbitrary: s)
  case Nil
  then show ?case by (simp add: after_calls_def)
next
  case (Cons c calls)
  obtain e a where c: "c = (e, a)" by (cases c)
  have "usedSessions (fst (transact (exec e a) s)) sid"
    using Cons.prems by (rule transact_usedSessions_mono)
  then have "usedSessions (after_calls calls (fst (transact (exec e a) s))) sid"
    by (rule Cons.IH)
  then show ?case by (simp add: after_calls_def c)
qed

text \<open>
  Claim C6. Once a submission that carries a session id has succeeded, then after any
  further sequence of calls (successful or reverted) every submission that carries the same
  session id, whoever sends it and whatever else it carries, fails with \<open>ReplayedSession\<close> and
  leaves the whole storage, leaderboards and epochs included, as it was.
\<close>

theorem C6_replay_forever:
  assumes "submitScore e sc rd kl sid signedAt sg s = Inr s1"
  shows "transact (submitScore e' sc' rd' kl' sid signedAt' sg') (after_calls calls s1)
           = (after_calls calls s1, Some ReplayedSession)"
proof -
  have "usedSessions s1 sid"
    by (simp add: submitScore_success(2) [OF assms])
  then have "usedSessions (after_calls calls s1) sid"
    by (rule after_calls_usedSessions_mono)
  then show ?thesis
    by (simp add: transact_def submitScore_replayed)
qed

theorem C6_replay_forever_witness:
  "submitScore (call_env 42 10) 100 0 1 555 5 [1] wired = Inr played \<and>
   transact (submitScore (call_env 43 86500) 7 1 1 555 86450 [1])
     (after_calls [(call_env 5 86400, SettleEpoch), (call_env 1 86401, SetScoreSigner 78)] played)
   = (after_calls [(call_env 5 86400, SettleEpoch), (call_env 1 86401, SetScoreSigner 78)] played,
      Some ReplayedSession)"
  using C6_replay_forever [OF submit_wired] submit_wired by simp

subsection \<open>The split of an entry fee\<close>

lemma feeShares_alt: "feeShares F = 7 * F div 10 + F div 10 + 2 * F div 10"
proof -
  have a: "F * 7000 div 10000 = 7 * F div 10"
    using div_mult_mult1 [of "1000::nat" "7 * F" 10] by (simp add: mult.commute)
  have b: "F * 1000 div 10000 = F div 10"
    using div_mult_mult1 [of "1000::nat" "F" 10] by (simp add: mult.commute)
  have c: "F * 2000 div 10000 = 2 * F div 10"
    using div_mult_mult1 [of "1000::nat" "2 * F" 10] by (simp add: mult.commute)
  show ?thesis
    by (simp add: feeShares_def PRIZE_POOL_BPS_def BURN_BPS_def TREASURY_BPS_def BPS_DENOM_def a b c)
qed

lemma feeShares_le: "feeShares F \<le> F"
  unfolding feeShares_alt by arith

lemma feeShares_ge: "F \<le> feeShares F + 2"
  unfolding feeShares_alt by arith

lemma feeShares_exact: "feeShares F = F \<longleftrightarrow> 10 dvd F"
proof
  assume e: "feeShares F = F"
  have a: "10 * (7 * F div 10) \<le> 7 * F" by simp
  have b: "10 * (F div 10) + F mod 10 = F" by simp
  have c: "10 * (2 * F div 10) \<le> 2 * F" by simp
  from a b c e have "F mod 10 = 0" unfolding feeShares_alt by linarith
  then show "10 dvd F" by (simp add: dvd_eq_mod_eq_0)
next
  assume "10 dvd F"
  then obtain k where "F = 10 * k" by (auto elim: dvdE)
  then show "feeShares F = F" by (simp add: feeShares_alt)
qed

lemma distributeEntryFee_pools:
  assumes "distributeEntryFee F s = Inr s'"
  shows "pools s' = (prizePool (epochs s (currentEpoch s)) + F * PRIZE_POOL_BPS div BPS_DENOM,
                     burnAmount (epochs s (currentEpoch s)) + F * BURN_BPS div BPS_DENOM,
                     treasuryAmount (epochs s (currentEpoch s)) + F * TREASURY_BPS div BPS_DENOM)"
  by (simp add: distributeEntryFee_success [OF assms] pools_def Let_def)

lemma distributeEntryFee_poolTotal:
  assumes "distributeEntryFee F s = Inr s'"
  shows "poolTotal s' = poolTotal s + feeShares F"
  by (simp add: poolTotal_def distributeEntryFee_pools [OF assms] feeShares_def)
     (simp add: pools_def Let_def)

lemma distributeAll_poolTotal:
  assumes "distributeAll Fs s = Inr s'"
  shows "poolTotal s' = poolTotal s + sum_list (map feeShares Fs)"
  using assms
proof (induction Fs arbitrary: s)
  case Nil
  then show ?case by simp
next
  case (Cons F Fs)
  from Cons.prems obtain s1 where 1: "distributeEntryFee F s = Inr s1"
    and 2: "distributeAll Fs s1 = Inr s'"
    by (auto simp: bind_Inr_iff)
  show ?case
    using Cons.IH [OF 2] distributeEntryFee_poolTotal [OF 1] by simp
qed

lemma sum_feeShares_le: "sum_list (map feeShares Fs) \<le> sum_list Fs"
  by (induction Fs) (simp_all add: add_mono feeShares_le)

lemma sum_feeShares_exact:
  "\<forall>F\<in>set Fs. 10 dvd F \<Longrightarrow> sum_list (map feeShares Fs) = sum_list Fs"
  by (induction Fs) (simp_all add: feeShares_exact)

text \<open>
  Claim C3, as amended. A fee \<open>F\<close> that \<^verbatim>\<open>_distributeEntryFee\<close> processes adds
  \<open>F * 7000 div 10000\<close>, \<open>F * 1000 div 10000\<close> and \<open>F * 2000 div 10000\<close> to the three pools
  of the current epoch. The three increments add up to at most \<open>F\<close> and to at least
  \<open>F - 2\<close>; they add up to \<open>F\<close> exactly when \<open>F\<close> is a multiple of 10, which the two
  deployed fees are. Hence the pools of an epoch total at most the sum of the fees
  distributed to it, and exactly that sum when every fee is a multiple of 10.
\<close>

theorem C3_fee_split:
  "(distributeEntryFee F s = Inr s' \<longrightarrow>
      pools s' = (prizePool (epochs s (currentEpoch s)) + F * PRIZE_POOL_BPS div BPS_DENOM,
                  burnAmount (epochs s (currentEpoch s)) + F * BURN_BPS div BPS_DENOM,
                  treasuryAmount (epochs s (currentEpoch s)) + F * TREASURY_BPS div BPS_DENOM) \<and>
      poolTotal s' = poolTotal s + feeShares F) \<and>
   feeShares F \<le> F \<and> F \<le> feeShares F + 2 \<and> (feeShares F = F \<longleftrightarrow> 10 dvd F) \<and>
   (distributeAll Fs s = Inr s'' \<longrightarrow>
      poolTotal s'' \<le> poolTotal s + sum_list Fs \<and>
      ((\<forall>F\<in>set Fs. 10 dvd F) \<longrightarrow> poolTotal s'' = poolTotal s + sum_list Fs))"
proof (intro conjI impI)
  assume "distributeAll Fs s = Inr s''"
  then have t: "poolTotal s'' = poolTotal s + sum_list (map feeShares Fs)"
    by (rule distributeAll_poolTotal)
  show "poolTotal s'' \<le> poolTotal s + sum_list Fs"
    using sum_feeShares_le [of Fs] by (simp add: t)
  assume "\<forall>F\<in>set Fs. 10 dvd F"
  then show "poolTotal s'' = poolTotal s + sum_list Fs"
    by (simp add: t sum_feeShares_exact)
next
  show "F \<le> feeShares F + 2" by (rule feeShares_ge)
qed (simp_all add: distributeEntryFee_pools distributeEntryFee_poolTotal feeShares_le
      feeShares_exact)

lemma distribute_5: "distributeEntryFee 5 genesis = Inr fee5"
  by (simp add: fee5_def distributeEntryFee_def genesis_def checked_mul_def checked_add_def
      consts_defs Let_def)

lemma distribute_seq: "distributeAll [10 * 10 ^ 18, 5 * 10 ^ 18] genesis = Inr fees15"
  by (simp add: fees15_def distributeEntryFee_def genesis_def checked_mul_def checked_add_def
      consts_defs Let_def)

theorem C3_fee_split_witness:
  "distributeEntryFee 5 genesis = Inr fee5 \<and> pools fee5 = (3, 0, 1) \<and>
   poolTotal fee5 = poolTotal genesis + feeShares 5 \<and> feeShares 5 + 1 = 5 \<and>
   feeShares (10 * 10 ^ 18) = 10 * 10 ^ 18 \<and>
   poolTotal fees15 = poolTotal genesis + 15 * 10 ^ 18"
proof -
  have p: "prizePool (epochs genesis (currentEpoch genesis)) = 0"
    "burnAmount (epochs genesis (currentEpoch genesis)) = 0"
    "treasuryAmount (epochs genesis (currentEpoch genesis)) = 0"
    by (simp_all add: genesis_def)
  have d: "\<forall>F\<in>set [10 * 10 ^ 18, 5 * 10 ^ 18 :: nat]. 10 dvd F"
    by simp
  have f: "feeShares 5 = 4"
    by (simp add: feeShares_def consts_defs)
  note a = C3_fee_split [of 5 genesis fee5 "[10 * 10 ^ 18, 5 * 10 ^ 18]" fees15]
  note b = C3_fee_split [of "10 * 10 ^ 18" genesis fee5 "[]" genesis]
  have 1: "pools fee5 = (3, 0, 1)"
    using a distribute_5 by (simp add: p consts_defs)
  have 2: "poolTotal fee5 = poolTotal genesis + feeShares 5"
    using a distribute_5 by simp
  have 3: "feeShares (10 * 10 ^ 18) = 10 * 10 ^ 18"
    using b by simp
  have 4: "poolTotal fees15 = poolTotal genesis + 15 * 10 ^ 18"
    using a distribute_seq d by simp
  from 1 2 3 4 distribute_5 f show ?thesis by simp
qed

text \<open>
  The claim as stated fails at the fee 5: the three increments are 3, 0 and 1, which add up
  to 4.
\<close>

theorem C3_counterexample:
  "distributeEntryFee 5 genesis = Inr fee5 \<and> pools genesis = (0, 0, 0) \<and>
   pools fee5 = (3, 0, 1) \<and> (3::nat) + 0 + 1 \<noteq> 5"
  by (simp add: distribute_5) (simp add: fee5_def genesis_def pools_def)

lemmas token_defs = on_token_def approve_def burn_def erc20_burn_def transfer_def

lemmas settle_defs = settleEpoch_def settle_prizes_def settle_burn_def settle_treasury_def
  startNewEpoch_def game_burn_def

text \<open>
  Claim C1 on an odd prize pool. From the sample deployment the owner sets the fees to 10 and
  5 units, the agent 42 earns 2 DUG with a first submission, approves 5 units and pays them
  as the fee of a second submission: epoch 1 then holds a prize pool of 3 units, no human
  winner and the agent winner 42. Settling at time 86401 mints \<open>3 div 2 = 1\<close> unit to the
  agent twice, 2 units in all, while \<open>EpochSettled\<close> reports an agent prize of 3.
\<close>

theorem C1_sole_winner_odd_pool:
  "result_of (\<lambda>s. (prizePool (epochs s 1), humanWinner (epochs s 1), agentWinner (epochs s 1)))
     (run sole_winner_calls wired) = Some (3, 0, 42) \<and>
   result_of (\<lambda>s. balanceOf (dugToken s) 42)
     (run sole_winner_calls wired) = Some 1999999999999999995 \<and>
   result_of (\<lambda>s. balanceOf (dugToken s) 42)
     (run (sole_winner_calls @ [(call_env 5 86401, SettleEpoch)]) wired)
       = Some 1999999999999999997 \<and>
   result_of (\<lambda>s. drop 6 (events s))
     (run (sole_winner_calls @ [(call_env 5 86401, SettleEpoch)]) wired)
       = Some [EpochSettled 1 0 0 42 3, EpochStarted 2 86401 172801]"
  by (simp add: result_of_def sole_winner_calls_def submit_defs token_defs settle_defs setFees_def
      wired_def genesis_def call_env_def sample_recover_def
      checked_add_def checked_mul_def consts_defs Let_def replicate_update_same
      del: One_nat_def)

subsection \<open>The entry fee\<close>

lemma erc20_update_fields:
  assumes "erc20_update from to v t = Inr t'"
  shows "allowance t' = allowance t" and "gameContract t' = gameContract t"
    and "tokenOwner t' = tokenOwner t"
  using assms
  by (auto simp: erc20_update_def bind_Inr_iff split: if_splits)

lemma mint_fields:
  assumes "mint c to v t = Inr t'"
  shows "allowance t' = allowance t" and "gameContract t' = gameContract t"
    and "tokenOwner t' = tokenOwner t"
  using assms
  by (auto simp: mint_def erc20_mint_def bind_Inr_iff split: if_splits dest: erc20_update_fields)

lemma mintGameplayRewards_allowance:
  assumes "mintGameplayRewards p kl rd s = Inr s'"
  shows "allowance (dugToken s') = allowance (dugToken s)"
  using assms
  by (auto simp: mintGameplayRewards_def game_mint_def bind_Inr_iff split: if_splits
      dest: mint_fields(1))

lemma finishSubmission_fields:
  "pools (finishSubmission e ag sc rd kl sid s) = pools s"
  "dugToken (finishSubmission e ag sc rd kl sid s) = dugToken s"
  by (simp_all add: finishSubmission_def Let_def pools_def submitScore_top_fields
      submitScore_board_fields)

text \<open>
  Claim C8. When the submitter's allowance to the game is below the entry fee of their
  category (10 DUG for a human and 5 DUG for an agent at deployment), the fee step returns
  the storage as it is: nothing is transferred and no pool grows. The submission is then
  exactly the remaining steps (the checks, the registry update, the reward mint, the
  leaderboard insertion, the top-score update and the event), so its outcome does not depend
  on the allowance; when it succeeds the pools of the current epoch and all allowances are
  as before, and it never fails for a lack of allowance.
\<close>

theorem C8_fee_skipped:
  assumes "allowance (dugToken s) (msg_sender e) (gameAddress s)
             < entryFee (isAgent (profiles (registry s) (msg_sender e))) s"
  shows "submitScore_fee e (isAgent (profiles (registry s) (msg_sender e)))
           (s\<lparr>usedSessions := (usedSessions s)(sid := True)\<rparr>)
         = Inr (s\<lparr>usedSessions := (usedSessions s)(sid := True)\<rparr>) \<and>
       submitScore e sc rd kl sid signedAt sg s =
         bind (submitScore_checks e sc rd kl sid signedAt sg s) (\<lambda>_.
         bind (submitScore_registry e sc (s\<lparr>usedSessions := (usedSessions s)(sid := True)\<rparr>)) (\<lambda>s3.
         bind (mintGameplayRewards (msg_sender e) kl rd s3) (\<lambda>s4.
           Inr (finishSubmission e (isAgent (profiles (registry s) (msg_sender e))) sc rd kl sid s4)))) \<and>
       (submitScore e sc rd kl sid signedAt sg s = Inr s' \<longrightarrow>
          pools s' = pools s \<and> allowance (dugToken s') = allowance (dugToken s)) \<and>
       submitScore e sc rd kl sid signedAt sg s \<noteq> Inl ERC20InsufficientAllowance \<and>
       (deploy e0 g signer tr = Inr s0 \<longrightarrow>
          entryFee False s0 = 10 * 10 ^ 18 \<and> entryFee True s0 = 5 * 10 ^ 18)"
proof -
  let ?s1 = "s\<lparr>usedSessions := (usedSessions s)(sid := True)\<rparr>"
  let ?ag = "isAgent (profiles (registry s) (msg_sender e))"
  have fee: "submitScore_fee e ?ag ?s1 = Inr ?s1"
    using assms by (auto simp: submitScore_fee_def entryFee_def Let_def split: if_splits)
  have eq: "submitScore e sc rd kl sid signedAt sg s =
         bind (submitScore_checks e sc rd kl sid signedAt sg s) (\<lambda>_.
         bind (submitScore_registry e sc ?s1) (\<lambda>s3.
         bind (mintGameplayRewards (msg_sender e) kl rd s3) (\<lambda>s4.
           Inr (finishSubmission e ?ag sc rd kl sid s4))))"
    by (simp add: submitScore_def Let_def getProfile_def fee finishSubmission_def)
  have frame: "pools s' = pools s \<and> allowance (dugToken s') = allowance (dugToken s)"
    if ok: "submitScore e sc rd kl sid signedAt sg s = Inr s'"
  proof -
    from ok obtain s3 s4 where r: "submitScore_registry e sc ?s1 = Inr s3"
      and m: "mintGameplayRewards (msg_sender e) kl rd s3 = Inr s4"
      and s': "s' = finishSubmission e ?ag sc rd kl sid s4"
      unfolding eq by (auto simp: bind_Inr_iff)
    note f3 = game_core_fields [OF submitScore_registry_success(1) [OF r]]
    note f4 = game_core_fields [OF mintGameplayRewards_success(1) [OF m]]
    have "pools s4 = pools s"
      by (simp add: pools_def f4 f3)
    moreover have "allowance (dugToken s4) = allowance (dugToken s)"
      by (simp add: mintGameplayRewards_allowance [OF m] submitScore_registry_success(2) [OF r])
    ultimately show ?thesis
      by (simp add: s' finishSubmission_fields)
  qed
  have no: "submitScore e sc rd kl sid signedAt sg s \<noteq> Inl ERC20InsufficientAllowance"
    unfolding eq
    by (auto simp: bind_Inl_iff submitScore_checks_def submitScore_registry_def recordGame_def
        mintGameplayRewards_def gameplayReward_def game_mint_def mint_def erc20_mint_def
        erc20_update_def checked_add_Inl checked_mul_Inl Let_def split: option.splits if_splits)
  have fees: "entryFee False s0 = 10 * 10 ^ 18 \<and> entryFee True s0 = 5 * 10 ^ 18"
    if "deploy e0 g signer tr = Inr s0"
    using that unfolding deploy_def startNewEpoch_Inr by (simp add: entryFee_def)
  from fee eq frame no fees show ?thesis by blast
qed

theorem C8_fee_skipped_witness:
  "allowance (dugToken wired) (msg_sender (call_env 42 10)) (gameAddress wired)
     < entryFee (isAgent (profiles (registry wired) (msg_sender (call_env 42 10)))) wired \<and>
   submitScore (call_env 42 10) 100 0 1 555 5 [1] wired = Inr played \<and>
   pools played = pools wired \<and>
   allowance (dugToken played) = allowance (dugToken wired) \<and>
   entryFee False genesis = 10 * 10 ^ 18 \<and> entryFee True genesis = 5 * 10 ^ 18"
proof -
  have h: "allowance (dugToken wired) (msg_sender (call_env 42 10)) (gameAddress wired)
     < entryFee (isAgent (profiles (registry wired) (msg_sender (call_env 42 10)))) wired"
    by (simp add: wired_def genesis_def call_env_def entryFee_def)
  from C8_fee_skipped [OF h, of 555 100 0 1 5 "[1]" played "call_env 1 0" 2000 77 9 genesis]
    submit_wired deploy_genesis h
  show ?thesis by blast
qed

subsection \<open>The token's supply\<close>

































subsection \<open>The leaderboard\<close>



lemma shiftDown_length [simp]: "length (shiftDown lb k j) = length lb"
proof (induction lb k j rule: shiftDown.induct)
  case (1 lb insertAt j)
  then show ?case by (simp add: shiftDown.simps [of lb insertAt j])
qed


lemma inserted_length [simp]: "length (inserted lb k x) = length lb"
  by (simp add: inserted_def)





















end
